theory Spec2Isabelle
  imports Complex_Main "HOL-Library.AList"
begin

section \<open>Python values\<close>

text \<open>
  A Python \<open>dict\<close> with string keys is an association list with distinct keys in
  insertion order: \<open>d[k] = v\<close> overwrites in place when \<open>k\<close> is present and appends
  otherwise (\<open>AList.update\<close>), \<open>d.update(e)\<close> stores the entries of \<open>e\<close> one after the
  other, \<open>d.get(k)\<close> is \<open>map_of\<close>.

  Python strings are modelled as \<open>string\<close>; a literal of the source that is not ASCII is
  the list of the bytes of its UTF-8 encoding (an injective encoding, so equality of keys
  is the source's).
\<close>

type_synonym 'v dict = "(string \<times> 'v) list"

definition dict_get :: "'v dict \<Rightarrow> string \<Rightarrow> 'v option" where
  "dict_get d k = map_of d k"

definition dict_keys :: "'v dict \<Rightarrow> string list" where
  "dict_keys d = map fst d"

definition dict_set :: "string \<Rightarrow> 'v \<Rightarrow> 'v dict \<Rightarrow> 'v dict" where
  "dict_set k v d = AList.update k v d"

definition dict_update :: "'v dict \<Rightarrow> 'v dict \<Rightarrow> 'v dict" where
  "dict_update d other = fold (\<lambda>(k, v) acc. dict_set k v acc) other d"

text \<open>
  The values \<open>json.loads\<close> produces. A float is kept as mantissa and exponent; only its
  truth value is ever read. \<open>truthy\<close> is Python's truth value (\<open>not v\<close> is its negation).
\<close>

datatype jvalue =
    JNull
  | JBool bool
  | JInt int
  | JFloat int int
  | JStr string
  | JArr "jvalue list"
  | JObj "(string \<times> jvalue) list"

fun truthy :: "jvalue \<Rightarrow> bool" where
  "truthy JNull = False"
| "truthy (JBool b) = b"
| "truthy (JInt n) = (n \<noteq> 0)"
| "truthy (JFloat m e) = (m \<noteq> 0)"
| "truthy (JStr s) = (s \<noteq> [])"
| "truthy (JArr xs) = (xs \<noteq> [])"
| "truthy (JObj kvs) = (kvs \<noteq> [])"

datatype exn = ValueError string | Exception string

fun str_exn :: "exn \<Rightarrow> string" where
  "str_exn (ValueError m) = m"
| "str_exn (Exception m) = m"


section \<open>Role assignment (collaboration\_engine.py)\<close>

definition INFORMATION_COLLECTOR :: string where
  "INFORMATION_COLLECTOR = ''information_collector''"

definition CONTENT_GENERATOR :: string where
  "CONTENT_GENERATOR = ''content_generator''"

definition QUALITY_REVIEWER :: string where
  "QUALITY_REVIEWER = ''quality_reviewer''"

definition STRUCTURE_OPTIMIZER :: string where
  "STRUCTURE_OPTIMIZER = ''structure_optimizer''"

definition roles :: "string list" where
  "roles = [INFORMATION_COLLECTOR, CONTENT_GENERATOR, QUALITY_REVIEWER, STRUCTURE_OPTIMIZER]"

text \<open>
  \<open>_assign_services_to_roles\<close>, as a function of \<open>get_service_names()\<close>. The indexing
  \<open>services[i % len(services)]\<close> is only reached with \<open>len(services) \<ge> 2\<close>, and
  \<open>services[0]\<close> with \<open>len(services) = 1\<close>, so neither can raise.
\<close>

definition assign_services_to_roles :: "string list \<Rightarrow> string dict" where
  "assign_services_to_roles services =
     (if services = [] then []
      else if length services = 1 then
        (let service_name = services ! 0 in
           [(INFORMATION_COLLECTOR, service_name),
            (CONTENT_GENERATOR, service_name),
            (QUALITY_REVIEWER, service_name),
            (STRUCTURE_OPTIMIZER, service_name)])
      else
        fold (\<lambda>(i, role) mapping. dict_set role (services ! (i mod length services)) mapping)
          (enumerate 0 roles) [])"


section \<open>Completeness check (paper\_generator.py)\<close>

text \<open>
  The six required field names are the UTF-8 bytes of the source's literals:
  U+7814 U+7A76 U+4E3B U+9898 (research topic), U+7814 U+7A76 U+80CC U+666F (research
  background), U+7814 U+7A76 U+76EE U+6807 (research objective), U+7814 U+7A76 U+65B9
  U+6CD5 (research method), U+6570 U+636E U+6765 U+6E90 (data source) and U+7814 U+7A76
  U+53D1 U+73B0 (research findings).
\<close>

definition field_topic :: string where
  "field_topic = [CHR 0xE7, CHR 0xA0, CHR 0x94, CHR 0xE7, CHR 0xA9, CHR 0xB6,
                  CHR 0xE4, CHR 0xB8, CHR 0xBB, CHR 0xE9, CHR 0xA2, CHR 0x98]"

definition field_background :: string where
  "field_background = [CHR 0xE7, CHR 0xA0, CHR 0x94, CHR 0xE7, CHR 0xA9, CHR 0xB6,
                       CHR 0xE8, CHR 0x83, CHR 0x8C, CHR 0xE6, CHR 0x99, CHR 0xAF]"

definition field_objective :: string where
  "field_objective = [CHR 0xE7, CHR 0xA0, CHR 0x94, CHR 0xE7, CHR 0xA9, CHR 0xB6,
                      CHR 0xE7, CHR 0x9B, CHR 0xAE, CHR 0xE6, CHR 0xA0, CHR 0x87]"

definition field_method :: string where
  "field_method = [CHR 0xE7, CHR 0xA0, CHR 0x94, CHR 0xE7, CHR 0xA9, CHR 0xB6,
                   CHR 0xE6, CHR 0x96, CHR 0xB9, CHR 0xE6, CHR 0xB3, CHR 0x95]"

definition field_data_source :: string where
  "field_data_source = [CHR 0xE6, CHR 0x95, CHR 0xB0, CHR 0xE6, CHR 0x8D, CHR 0xAE,
                        CHR 0xE6, CHR 0x9D, CHR 0xA5, CHR 0xE6, CHR 0xBA, CHR 0x90]"

definition field_findings :: string where
  "field_findings = [CHR 0xE7, CHR 0xA0, CHR 0x94, CHR 0xE7, CHR 0xA9, CHR 0xB6,
                     CHR 0xE5, CHR 0x8F, CHR 0x91, CHR 0xE7, CHR 0x8E, CHR 0xB0]"

definition required_fields :: "string list" where
  "required_fields = [field_topic, field_background, field_objective, field_method,
                      field_data_source, field_findings]"

text \<open>\<open>field not in collected_info or not collected_info[field]\<close>\<close>

definition field_missing :: "jvalue dict \<Rightarrow> string \<Rightarrow> bool" where
  "field_missing collected_info field =
     (case dict_get collected_info field of None \<Rightarrow> True | Some v \<Rightarrow> \<not> truthy v)"

text \<open>The loop over \<open>required_fields\<close>, appending to \<open>missing_info\<close>.\<close>

fun missing_loop :: "jvalue dict \<Rightarrow> string list \<Rightarrow> string list \<Rightarrow> string list" where
  "missing_loop collected_info [] missing_info = missing_info"
| "missing_loop collected_info (field # fields) missing_info =
     missing_loop collected_info fields
       (if field_missing collected_info field then missing_info @ [field] else missing_info)"

record completeness =
  is_complete :: bool
  missing_info :: "string list"
  completeness_rate :: rat

text \<open>
  Python's \<open>/\<close> yields the double nearest to the quotient; the model keeps the quotient
  itself, a rational.
\<close>

definition check_information_completeness :: "jvalue dict \<Rightarrow> completeness" where
  "check_information_completeness collected_info =
     (let missing = missing_loop collected_info required_fields []
      in \<lparr> is_complete = (length missing = 0),
           missing_info = missing,
           completeness_rate =
             of_int (int (length required_fields) - int (length missing))
               / of_int (int (length required_fields)) \<rparr>)"


section \<open>Session store (conversation\_manager.py)\<close>

text \<open>
  Messages, sessions and the per-session context. The time stamps (\<open>timestamp\<close>,
  \<open>created_at\<close>, \<open>updated_at\<close>) are left out: they are written from the clock and never
  read by the operations below. The context is a Python dict; its recognised keys are
  fields of a record, each optional key an \<open>option\<close> (\<open>None\<close>: the key is absent), the
  keys \<open><section>_generation_process\<close> a dict keyed by the section, and every other key
  (\<open>missing_info\<close>, \<open>paper_outline\<close>) is kept in \<open>other_keys\<close>.
\<close>

record message =
  role :: string
  content :: string
  metadata :: "jvalue dict"

record iteration_entry =
  iteration :: nat
  entry_type :: string
  entry_content :: string

record context_dict =
  collected_info :: "jvalue dict option"
  current_stage :: "string option"
  paper_content :: "string dict option"
  generation_process :: "(iteration_entry list) dict"
  other_keys :: "jvalue dict"

record session =
  session_id :: string
  user_id :: string
  title :: string
  messages :: "message list"
  session_context :: context_dict
  status :: string

text \<open>One entry of the dict passed to \<open>update_context\<close>.\<close>

datatype context_update =
    SetCollectedInfo "jvalue dict"
  | SetCurrentStage string
  | SetPaperContent "string dict"
  | SetGenerationProcess string "iteration_entry list"

fun apply_update :: "context_update \<Rightarrow> context_dict \<Rightarrow> context_dict" where
  "apply_update (SetCollectedInfo ci) c = c\<lparr>collected_info := Some ci\<rparr>"
| "apply_update (SetCurrentStage s) c = c\<lparr>current_stage := Some s\<rparr>"
| "apply_update (SetPaperContent pc) c = c\<lparr>paper_content := Some pc\<rparr>"
| "apply_update (SetGenerationProcess sec tr) c =
     c\<lparr>generation_process := dict_set sec tr (generation_process c)\<rparr>"

definition empty_context :: context_dict where
  "empty_context = \<lparr> collected_info = None, current_stage = None, paper_content = None,
                      generation_process = [], other_keys = [] \<rparr>"

text \<open>
  A file \<open><session_id>.json\<close> of the storage directory either loads as a session or
  makes \<open>_load_session\<close> fail, which returns \<open>None\<close> as a missing file does.
\<close>

datatype stored_file = SessionFile session | Unreadable

text \<open>
  The state of the process: the sessions held in memory, the storage directory, and the
  number of requests sent to backends so far. A session object is shared by reference
  between \<open>active_sessions\<close> and the callers that hold it; every mutation of it is
  therefore an update of \<open>active_sessions\<close> at the key it is stored under.
\<close>

record world =
  active_sessions :: "string \<rightharpoonup> session"
  disk :: "string \<rightharpoonup> stored_file"
  calls :: nat

text \<open>
  State passing with exceptions: an operation maps a world to a result and a world,
  \<open>Inl e\<close> when it raises \<open>e\<close>. \<open>bindE\<close> is sequencing (a raise skips the rest).
\<close>

definition bindE ::
  "(world \<Rightarrow> (exn + 'a) \<times> world) \<Rightarrow> ('a \<Rightarrow> world \<Rightarrow> (exn + 'b) \<times> world)
     \<Rightarrow> world \<Rightarrow> (exn + 'b) \<times> world" where
  "bindE m f w = (case m w of (Inl e, w') \<Rightarrow> (Inl e, w') | (Inr a, w') \<Rightarrow> f a w')"

text \<open>U+4F1A U+8BDD U+4E0D U+5B58 U+5728 (session does not exist), then \<open>: \<close>.\<close>

definition session_missing :: string where
  "session_missing = [CHR 0xE4, CHR 0xBC, CHR 0x9A, CHR 0xE8, CHR 0xAF, CHR 0x9D, CHR 0xE4,
                      CHR 0xB8, CHR 0x8D, CHR 0xE5, CHR 0xAD, CHR 0x98, CHR 0xE5, CHR 0x9C,
                      CHR 0xA8]"

definition session_not_found :: "string \<Rightarrow> exn" where
  "session_not_found sid = ValueError (session_missing @ '': '' @ sid)"

definition load_session :: "world \<Rightarrow> string \<Rightarrow> session option" where
  "load_session w sid =
     (case disk w sid of
        None \<Rightarrow> None
      | Some Unreadable \<Rightarrow> None
      | Some (SessionFile s) \<Rightarrow> Some s)"

definition save_session :: "session \<Rightarrow> world \<Rightarrow> world" where
  "save_session s w = w\<lparr>disk := (disk w)(session_id s \<mapsto> SessionFile s)\<rparr>"

definition get_session :: "string \<Rightarrow> world \<Rightarrow> session option \<times> world" where
  "get_session sid w =
     (case active_sessions w sid of
        Some s \<Rightarrow> (Some s, w)
      | None \<Rightarrow>
          (case load_session w sid of
             None \<Rightarrow> (None, w)
           | Some s \<Rightarrow> (Some s, w\<lparr>active_sessions := (active_sessions w)(sid \<mapsto> s)\<rparr>)))"

text \<open>Mutating the session object stored under \<open>sid\<close>, then \<open>_save_session\<close>.\<close>

definition store_session :: "string \<Rightarrow> session \<Rightarrow> world \<Rightarrow> world" where
  "store_session sid s w =
     save_session s (w\<lparr>active_sessions := (active_sessions w)(sid \<mapsto> s)\<rparr>)"

definition add_message ::
  "string \<Rightarrow> string \<Rightarrow> string \<Rightarrow> jvalue dict option \<Rightarrow> world \<Rightarrow> (exn + message) \<times> world" where
  "add_message sid r c md w =
     (case get_session sid w of
        (None, w1) \<Rightarrow> (Inl (session_not_found sid), w1)
      | (Some s, w1) \<Rightarrow>
          (let m = \<lparr> role = r, content = c,
                     metadata = (case md of None \<Rightarrow> [] | Some d \<Rightarrow> d) \<rparr>
           in (Inr m, store_session sid (s\<lparr>messages := messages s @ [m]\<rparr>) w1)))"

text \<open>
  \<open>messages[-limit:]\<close> when \<open>limit\<close> is neither \<open>None\<close> nor 0: the last \<open>limit\<close>
  messages for a positive limit, all but the first \<open>-limit\<close> for a negative one.
\<close>

definition last_slice :: "int \<Rightarrow> 'a list \<Rightarrow> 'a list" where
  "last_slice limit xs =
     (if 0 < limit then drop (length xs - nat limit) xs else drop (nat (- limit)) xs)"

definition get_messages :: "string \<Rightarrow> int option \<Rightarrow> world \<Rightarrow> message list \<times> world" where
  "get_messages sid limit w =
     (case get_session sid w of
        (None, w1) \<Rightarrow> ([], w1)
      | (Some s, w1) \<Rightarrow>
          (case limit of
             None \<Rightarrow> (messages s, w1)
           | Some l \<Rightarrow> (if l = 0 then messages s else last_slice l (messages s), w1)))"

definition get_messages_for_api ::
  "string \<Rightarrow> int option \<Rightarrow> world \<Rightarrow> (string \<times> string) list \<times> world" where
  "get_messages_for_api sid limit w =
     (case get_messages sid limit w of
        (ms, w1) \<Rightarrow> (map (\<lambda>m. (role m, content m)) ms, w1))"

definition update_context ::
  "string \<Rightarrow> context_update list \<Rightarrow> world \<Rightarrow> (exn + unit) \<times> world" where
  "update_context sid context_updates w =
     (case get_session sid w of
        (None, w1) \<Rightarrow> (Inl (session_not_found sid), w1)
      | (Some s, w1) \<Rightarrow>
          (Inr (),
           store_session sid
             (s\<lparr>session_context := fold apply_update context_updates (session_context s)\<rparr>)
             w1))"

definition get_context :: "string \<Rightarrow> world \<Rightarrow> context_dict \<times> world" where
  "get_context sid w =
     (case get_session sid w of
        (None, w1) \<Rightarrow> (empty_context, w1)
      | (Some s, w1) \<Rightarrow> (session_context s, w1))"

definition update_session_status :: "string \<Rightarrow> string \<Rightarrow> world \<Rightarrow> (exn + unit) \<times> world" where
  "update_session_status sid st w =
     (case get_session sid w of
        (None, w1) \<Rightarrow> (Inl (session_not_found sid), w1)
      | (Some s, w1) \<Rightarrow> (Inr (), store_session sid (s\<lparr>status := st\<rparr>) w1))"



section \<open>Backends (ai\_service.py)\<close>

text \<open>
  A backend is an external chat service. The reply to a request is not computed by this
  program: \<open>backend env n r\<close> is the outcome of the \<open>n\<close>-th request sent (counting from
  0) when that request is \<open>r\<close>, either the reply text or the exception the service
  raises. The theorems hold for every such function.

  The texts of the prompts are data of \<open>prompt_templates.py\<close> and of f-strings; each
  function of \<open>prompts\<close> stands for the text built from the arguments shown, and none of
  them can raise (every template has only the placeholders it is formatted with).
  \<open>json_loads\<close> is Python's \<open>json.loads\<close> on a text that starts with an opening brace:
  the dict it returns, or \<open>None\<close> when it raises.
\<close>

record chat_request =
  service :: string
  chat_messages :: "(string \<times> string) list"
  temperature :: rat
  max_tokens :: nat

record prompts =
  extraction_system :: string
  extraction_prompt :: "string \<Rightarrow> string \<Rightarrow> string"
  collector_prompt :: "jvalue dict \<Rightarrow> string \<Rightarrow> string"
  generation_prompt :: "string \<Rightarrow> jvalue dict \<Rightarrow> string"
  review_prompt :: "string \<Rightarrow> string \<Rightarrow> string"
  optimization_prompt :: "string \<Rightarrow> string \<Rightarrow> string"
  improvement_prompt :: "string \<Rightarrow> string \<Rightarrow> string \<Rightarrow> string"
  notification :: string
  completion_message :: string
  missing_prompt :: "string \<Rightarrow> string"

record env =
  services :: "string list"
  backend :: "nat \<Rightarrow> chat_request \<Rightarrow> exn + string"
  role_description :: "string \<rightharpoonup> string"
  role_temperature :: "string \<rightharpoonup> rat"
  max_rounds :: int
  min_rounds :: int
  json_loads :: "string \<Rightarrow> jvalue dict option"
  texts :: prompts

text \<open>U+6CA1 U+6709 U+53EF U+7528 U+7684 A I U+670D U+52A1 (no AI service available).\<close>

definition no_service :: string where
  "no_service = [CHR 0xE6, CHR 0xB2, CHR 0xA1, CHR 0xE6, CHR 0x9C, CHR 0x89, CHR 0xE5, CHR 0x8F,
                 CHR 0xAF, CHR 0xE7, CHR 0x94, CHR 0xA8, CHR 0xE7, CHR 0x9A, CHR 0x84, CHR ''A'',
                 CHR ''I'', CHR 0xE6, CHR 0x9C, CHR 0x8D, CHR 0xE5, CHR 0x8A, CHR 0xA1]"

definition first_service :: "env \<Rightarrow> string option" where
  "first_service env = (case services env of [] \<Rightarrow> None | s # _ \<Rightarrow> Some s)"

text \<open>\<open>AIServiceManager.get_service\<close>; a service is identified by its registered name.\<close>

definition get_service :: "env \<Rightarrow> string option \<Rightarrow> string option" where
  "get_service env service_name =
     (case service_name of
        None \<Rightarrow> first_service env
      | Some n \<Rightarrow>
          (if n = [] then first_service env
           else if n \<in> set (services env) then Some n else None))"

text \<open>\<open>AIServiceManager.chat\<close>\<close>

definition service_manager_chat ::
  "env \<Rightarrow> (string \<times> string) list \<Rightarrow> string option \<Rightarrow> rat \<Rightarrow> nat \<Rightarrow> world
     \<Rightarrow> (exn + string) \<times> world" where
  "service_manager_chat env msgs service_name temp maxtok w =
     (case get_service env service_name of
        None \<Rightarrow> (Inl (Exception no_service), w)
      | Some svc \<Rightarrow>
          (backend env (calls w)
             \<lparr> service = svc, chat_messages = msgs, temperature = temp, max_tokens = maxtok \<rparr>,
           w\<lparr>calls := Suc (calls w)\<rparr>))"


section \<open>Collaboration engine (collaboration\_engine.py)\<close>

text \<open>
  Default role descriptions and the prefixes of the failure texts, as UTF-8 bytes:
  U+4FE1 U+606F U+6536 U+96C6 (information collection), U+5185 U+5BB9 U+751F U+6210
  (content generation), U+8D28 U+91CF U+5BA1 U+6838 (quality review), U+7ED3 U+6784
  U+4F18 U+5316 (structure optimisation), each followed by U+4E13 U+5BB6 (expert) in a
  description; the failure texts end with U+5931 U+8D25 (failed) and \<open>: \<close>.
\<close>

definition expert :: string where
  "expert = [CHR 0xE4, CHR 0xB8, CHR 0x93, CHR 0xE5, CHR 0xAE, CHR 0xB6]"

definition failed :: string where
  "failed = [CHR 0xE5, CHR 0xA4, CHR 0xB1, CHR 0xE8, CHR 0xB4, CHR 0xA5, CHR '':'', CHR '' '']"

definition information_collection :: string where
  "information_collection = [CHR 0xE4, CHR 0xBF, CHR 0xA1, CHR 0xE6, CHR 0x81, CHR 0xAF,
                             CHR 0xE6, CHR 0x94, CHR 0xB6, CHR 0xE9, CHR 0x9B, CHR 0x86]"

definition content_generation :: string where
  "content_generation = [CHR 0xE5, CHR 0x86, CHR 0x85, CHR 0xE5, CHR 0xAE, CHR 0xB9,
                         CHR 0xE7, CHR 0x94, CHR 0x9F, CHR 0xE6, CHR 0x88, CHR 0x90]"

definition quality_review :: string where
  "quality_review = [CHR 0xE8, CHR 0xB4, CHR 0xA8, CHR 0xE9, CHR 0x87, CHR 0x8F,
                     CHR 0xE5, CHR 0xAE, CHR 0xA1, CHR 0xE6, CHR 0xA0, CHR 0xB8]"

definition structure_optimization :: string where
  "structure_optimization = [CHR 0xE7, CHR 0xBB, CHR 0x93, CHR 0xE6, CHR 0x9E, CHR 0x84,
                             CHR 0xE4, CHR 0xBC, CHR 0x98, CHR 0xE5, CHR 0x8C, CHR 0x96]"

text \<open>\<open>role_config.get(role, {}).get("description", default)\<close> and the same for the temperature.\<close>

definition description_of :: "env \<Rightarrow> string \<Rightarrow> string \<Rightarrow> string" where
  "description_of env r dflt =
     (case role_description env r of None \<Rightarrow> dflt | Some d \<Rightarrow> d)"

definition temperature_of :: "env \<Rightarrow> string \<Rightarrow> rat \<Rightarrow> rat" where
  "temperature_of env r dflt =
     (case role_temperature env r of None \<Rightarrow> dflt | Some t \<Rightarrow> t)"

text \<open>\<open>role_service_mapping\<close> is computed once, from the registered names.\<close>

definition role_service_mapping :: "env \<Rightarrow> string dict" where
  "role_service_mapping env = assign_services_to_roles (services env)"

definition collect_information ::
  "env \<Rightarrow> string \<Rightarrow> jvalue dict \<Rightarrow> (string \<times> string) list \<Rightarrow> world \<Rightarrow> string \<times> world" where
  "collect_information env stage info conversation_history w =
     (let temp = temperature_of env INFORMATION_COLLECTOR (7 / 10);
          prompt = collector_prompt (texts env) info stage;
          msgs = [(''system'', description_of env INFORMATION_COLLECTOR (information_collection @ expert))]
                 @ (if conversation_history \<noteq> [] then last_slice 6 conversation_history else [])
                 @ [(''user'', prompt)];
          service_name = dict_get (role_service_mapping env) INFORMATION_COLLECTOR
      in case service_manager_chat env msgs service_name temp 2000 w of
           (Inr response, w1) \<Rightarrow> (response, w1)
         | (Inl e, w1) \<Rightarrow> (information_collection @ failed @ str_exn e, w1))"

text \<open>\<open>generate_content\<close>; its optional \<open>requirements\<close> is the empty string at every call.\<close>

definition generate_content ::
  "env \<Rightarrow> string \<Rightarrow> jvalue dict \<Rightarrow> world \<Rightarrow> string \<times> world" where
  "generate_content env sec info w =
     (let temp = temperature_of env CONTENT_GENERATOR (8 / 10);
          prompt = generation_prompt (texts env) sec info;
          msgs = [(''system'', description_of env CONTENT_GENERATOR (content_generation @ expert)),
                  (''user'', prompt)];
          service_name = dict_get (role_service_mapping env) CONTENT_GENERATOR
      in case service_manager_chat env msgs service_name temp 4000 w of
           (Inr response, w1) \<Rightarrow> (response, w1)
         | (Inl e, w1) \<Rightarrow> (content_generation @ failed @ str_exn e, w1))"

record review_result =
  review :: string
  review_status :: string

text \<open>U+5BA1 U+6838 (review), the prefix of the reviewer's failure text.\<close>

definition review_word :: string where
  "review_word = [CHR 0xE5, CHR 0xAE, CHR 0xA1, CHR 0xE6, CHR 0xA0, CHR 0xB8]"

definition review_quality ::
  "env \<Rightarrow> string \<Rightarrow> string \<Rightarrow> world \<Rightarrow> review_result \<times> world" where
  "review_quality env cont sec w =
     (let temp = temperature_of env QUALITY_REVIEWER (3 / 10);
          prompt = review_prompt (texts env) cont sec;
          msgs = [(''system'', description_of env QUALITY_REVIEWER (quality_review @ expert)),
                  (''user'', prompt)];
          service_name = dict_get (role_service_mapping env) QUALITY_REVIEWER
      in case service_manager_chat env msgs service_name temp 3000 w of
           (Inr response, w1) \<Rightarrow> (\<lparr> review = response, review_status = ''success'' \<rparr>, w1)
         | (Inl e, w1) \<Rightarrow>
             (\<lparr> review = review_word @ failed @ str_exn e, review_status = ''error'' \<rparr>, w1))"

definition optimize_structure ::
  "env \<Rightarrow> string \<Rightarrow> string \<Rightarrow> world \<Rightarrow> string \<times> world" where
  "optimize_structure env cont sec w =
     (let temp = temperature_of env STRUCTURE_OPTIMIZER (5 / 10);
          prompt = optimization_prompt (texts env) cont sec;
          msgs = [(''system'', description_of env STRUCTURE_OPTIMIZER (structure_optimization @ expert)),
                  (''user'', prompt)];
          service_name = dict_get (role_service_mapping env) STRUCTURE_OPTIMIZER
      in case service_manager_chat env msgs service_name temp 4000 w of
           (Inr response, w1) \<Rightarrow> (response, w1)
         | (Inl e, w1) \<Rightarrow> (structure_optimization @ failed @ str_exn e, w1))"

record generation_result =
  result_section :: string
  final_content :: string
  iterations :: "iteration_entry list"
  result_status :: string
  result_error :: "string option"

text \<open>
  The body of \<open>for i in range(iterations)\<close> in \<open>collaborative_generation\<close>, over the
  remaining indices. The loop state is \<open>current_content\<close> and \<open>result["iterations"]\<close>; an
  exception leaves the loop with the state reached (\<open>Some e\<close>). Only the direct call of
  \<open>service_manager.chat\<close> for the improved version can raise: \<open>review_quality\<close> and
  \<open>optimize_structure\<close> catch the exceptions of their own calls.
\<close>

fun optimization_loop ::
  "env \<Rightarrow> string \<Rightarrow> nat list \<Rightarrow> string \<Rightarrow> iteration_entry list \<Rightarrow> world
     \<Rightarrow> (exn option \<times> string \<times> iteration_entry list) \<times> world" where
  "optimization_loop env sec [] current_content trace w = ((None, current_content, trace), w)"
| "optimization_loop env sec (i # rest) current_content trace w =
     (let (review_res, w1) = review_quality env current_content sec w;
          trace1 = trace @ [\<lparr> iteration = i + 1, entry_type = ''quality_review'',
                               entry_content = review review_res \<rparr>];
          (optimized_content, w2) = optimize_structure env current_content sec w1;
          trace2 = trace1 @ [\<lparr> iteration = i + 1, entry_type = ''structure_optimization'',
                                entry_content = optimized_content \<rparr>];
          msgs = [(''system'', description_of env CONTENT_GENERATOR (content_generation @ expert)),
                  (''user'', improvement_prompt (texts env) current_content (review review_res)
                               optimized_content)];
          service_name = dict_get (role_service_mapping env) CONTENT_GENERATOR
      in case service_manager_chat env msgs service_name (7 / 10) 4000 w2 of
           (Inl e, w3) \<Rightarrow> ((Some e, current_content, trace2), w3)
         | (Inr improved_content, w3) \<Rightarrow>
             optimization_loop env sec rest improved_content
               (trace2 @ [\<lparr> iteration = i + 1, entry_type = ''improved_generation'',
                            entry_content = improved_content \<rparr>])
               w3)"

text \<open>
  \<open>collaborative_generation\<close>. The count is a natural number (\<open>range\<close> of a negative
  count is empty, as of 0). \<open>generate_content\<close> returns a text in every case, so
  \<open>current_content\<close> is bound whenever the handler runs.
\<close>

definition collaborative_generation ::
  "env \<Rightarrow> string \<Rightarrow> jvalue dict \<Rightarrow> nat \<Rightarrow> world \<Rightarrow> generation_result \<times> world" where
  "collaborative_generation env sec info k w =
     (let (initial_content, w1) = generate_content env sec info w;
          trace0 = [\<lparr> iteration = 0, entry_type = ''initial_generation'',
                      entry_content = initial_content \<rparr>]
      in case optimization_loop env sec [0..<k] initial_content trace0 w1 of
           ((None, current_content, trace), w2) \<Rightarrow>
             (\<lparr> result_section = sec, final_content = current_content, iterations = trace,
                result_status = ''success'', result_error = None \<rparr>, w2)
         | ((Some e, current_content, trace), w2) \<Rightarrow>
             (\<lparr> result_section = sec, final_content = current_content, iterations = trace,
                result_status = ''error'', result_error = Some (str_exn e) \<rparr>, w2))"



section \<open>Stage controller and paper assembly (paper\_generator.py)\<close>

definition INITIAL :: string where "INITIAL = ''initial''"
definition RESEARCH_BACKGROUND :: string where "RESEARCH_BACKGROUND = ''research_background''"
definition METHODOLOGY :: string where "METHODOLOGY = ''methodology''"
definition RESULTS :: string where "RESULTS = ''results''"
definition DISCUSSION :: string where "DISCUSSION = ''discussion''"
definition LITERATURE_REVIEW :: string where "LITERATURE_REVIEW = ''literature_review''"
definition GENERATING :: string where "GENERATING = ''generating''"
definition COMPLETED :: string where "COMPLETED = ''completed''"

definition stage_flow :: "string list" where
  "stage_flow = [INITIAL, RESEARCH_BACKGROUND, METHODOLOGY, RESULTS, DISCUSSION,
                 LITERATURE_REVIEW, GENERATING]"

text \<open>The section names of \<open>PaperSection\<close>, in the order \<open>_generate_full_paper\<close> uses.\<close>

definition paper_sections :: "string list" where
  "paper_sections = [''abstract'', ''introduction'', ''literature_review'', ''methodology'',
                     ''results'', ''discussion'', ''conclusion'']"

text \<open>
  The catch-all field U+7528 U+6237 U+8865 U+5145 U+4FE1 U+606F (user supplementary
  information).
\<close>

definition catch_all_field :: string where
  "catch_all_field = [CHR 0xE7, CHR 0x94, CHR 0xA8, CHR 0xE6, CHR 0x88, CHR 0xB7, CHR 0xE8,
                      CHR 0xA1, CHR 0xA5, CHR 0xE5, CHR 0x85, CHR 0x85, CHR 0xE4, CHR 0xBF,
                      CHR 0xA1, CHR 0xE6, CHR 0x81, CHR 0xAF]"

text \<open>
  \<open>re.search(r'\{[^}]+\}', response, re.DOTALL)\<close>: the leftmost opening brace that is
  followed by at least one character other than a closing brace and then by a closing
  brace; the match runs to the first closing brace after it.
\<close>

definition brace_body :: "string \<Rightarrow> string option" where
  "brace_body cs =
     (let inner = takeWhile (\<lambda>c. c \<noteq> CHR ''}'') cs;
          rest = dropWhile (\<lambda>c. c \<noteq> CHR ''}'') cs
      in if inner \<noteq> [] \<and> rest \<noteq> [] then Some (inner @ ''}'') else None)"

fun find_json_block :: "string \<Rightarrow> string option" where
  "find_json_block [] = None"
| "find_json_block (c # cs) =
     (if c = CHR ''{'' then
        (case brace_body cs of
           Some body \<Rightarrow> Some (c # body)
         | None \<Rightarrow> find_json_block cs)
      else find_json_block cs)"

text \<open>
  \<open>_extract_information\<close>. The body of its \<open>try\<close> raises when the chat call does; a
  failure of \<open>json.loads\<close> is caught by the inner handler and falls through to the
  fallback. The outer handler turns every exception into the fallback.
\<close>

definition extraction_fallback :: "string \<Rightarrow> jvalue dict" where
  "extraction_fallback user_input = [(catch_all_field, JStr user_input)]"

definition extraction_messages :: "env \<Rightarrow> string \<Rightarrow> string \<Rightarrow> (string \<times> string) list" where
  "extraction_messages env user_input stage =
     [(''system'', extraction_system (texts env)),
      (''user'', extraction_prompt (texts env) user_input stage)]"

definition extract_try ::
  "env \<Rightarrow> string \<Rightarrow> string \<Rightarrow> world \<Rightarrow> (exn + jvalue dict) \<times> world" where
  "extract_try env user_input stage w =
     (let msgs = extraction_messages env user_input stage
      in bindE (service_manager_chat env msgs None (3 / 10) 1000)
           (\<lambda>response w1.
              case find_json_block response of
                None \<Rightarrow> (Inr (extraction_fallback user_input), w1)
              | Some block \<Rightarrow>
                  (case json_loads env block of
                     Some extracted \<Rightarrow> (Inr extracted, w1)
                   | None \<Rightarrow> (Inr (extraction_fallback user_input), w1)))
           w)"

definition extract_information ::
  "env \<Rightarrow> string \<Rightarrow> string \<Rightarrow> world \<Rightarrow> (exn + jvalue dict) \<times> world" where
  "extract_information env user_input stage w =
     (case extract_try env user_input stage w of
        (Inr extracted, w1) \<Rightarrow> (Inr extracted, w1)
      | (Inl e, w1) \<Rightarrow> (Inr (extraction_fallback user_input), w1))"

text \<open>The dict a call of the generator returns.\<close>

datatype response =
    ErrorResponse string
  | CollectingResponse string string string nat string
  | MissingResponse string string string "string list" string
  | CompletedResponse string string string "string dict" string
  | RegeneratedResponse string string string string

text \<open>
  \<open>ErrorResponse error\<close>; \<open>CollectingResponse session_id stage message round status\<close>;
  \<open>MissingResponse session_id stage message missing_info status\<close>;
  \<open>CompletedResponse session_id stage message paper_content status\<close>;
  \<open>RegeneratedResponse session_id section content status\<close>.
\<close>

text \<open>
  \<open>session.messages\<close>, read through the reference \<open>process_user_input\<close> holds: the
  messages of the object stored under \<open>sid\<close>.
\<close>

definition session_messages :: "world \<Rightarrow> string \<Rightarrow> message list" where
  "session_messages w sid = (case active_sessions w sid of None \<Rightarrow> [] | Some s \<Rightarrow> messages s)"

definition continue_information_collection ::
  "env \<Rightarrow> string \<Rightarrow> string \<Rightarrow> jvalue dict \<Rightarrow> nat \<Rightarrow> world \<Rightarrow> (exn + response) \<times> world" where
  "continue_information_collection env sid stage info current_round w =
     (let stage_index = (if length stage_flow \<le> current_round then length stage_flow - 1
                         else current_round);
          next_stage = stage_flow ! (min stage_index (length stage_flow - 1))
      in bindE (update_context sid [SetCurrentStage next_stage])
           (\<lambda>_ w1.
              case get_messages_for_api sid (Some 6) w1 of
                (conversation_history, w2) \<Rightarrow>
                  (case collect_information env next_stage info conversation_history w2 of
                     (response_message, w3) \<Rightarrow>
                       bindE (add_message sid ''assistant'' response_message None)
                         (\<lambda>_ w4.
                            (Inr (CollectingResponse sid next_stage response_message
                                    (current_round + 1) ''collecting''), w4))
                         w3))
           w)"

text \<open>\<open>sep.join(xs)\<close>, with the separator U+3001.\<close>

fun join :: "string \<Rightarrow> string list \<Rightarrow> string" where
  "join sep [] = []"
| "join sep [x] = x"
| "join sep (x # y # ys) = x @ sep @ join sep (y # ys)"

definition ideographic_comma :: string where
  "ideographic_comma = [CHR 0xE3, CHR 0x80, CHR 0x81]"

definition collect_missing_information ::
  "env \<Rightarrow> string \<Rightarrow> jvalue dict \<Rightarrow> string list \<Rightarrow> world \<Rightarrow> (exn + response) \<times> world" where
  "collect_missing_information env sid info missing w =
     (let missing_info_text = join ideographic_comma missing;
          prompt = missing_prompt (texts env) missing_info_text
      in bindE (add_message sid ''assistant'' prompt None)
           (\<lambda>_ w1. (Inr (MissingResponse sid ''collecting_missing'' prompt missing
                            ''collecting''), w1))
           w)"

text \<open>The loop of \<open>_generate_full_paper\<close> over the remaining sections.\<close>

fun full_paper_loop ::
  "env \<Rightarrow> string \<Rightarrow> jvalue dict \<Rightarrow> string list \<Rightarrow> string dict \<Rightarrow> world
     \<Rightarrow> (exn + string dict) \<times> world" where
  "full_paper_loop env sid info [] pc w = (Inr pc, w)"
| "full_paper_loop env sid info (sec # rest) pc w =
     (case collaborative_generation env sec info 1 w of
        (result, w1) \<Rightarrow>
          bindE (update_context sid [SetGenerationProcess sec (iterations result)])
            (\<lambda>_ w2. full_paper_loop env sid info rest (dict_set sec (final_content result) pc) w2)
            w1)"

definition generate_full_paper ::
  "env \<Rightarrow> string \<Rightarrow> jvalue dict \<Rightarrow> world \<Rightarrow> (exn + string dict) \<times> world" where
  "generate_full_paper env sid info w = full_paper_loop env sid info paper_sections [] w"

definition start_paper_generation ::
  "env \<Rightarrow> string \<Rightarrow> jvalue dict \<Rightarrow> world \<Rightarrow> (exn + response) \<times> world" where
  "start_paper_generation env sid info w =
     bindE (update_context sid [SetCurrentStage GENERATING])
       (\<lambda>_. bindE (add_message sid ''assistant'' (notification (texts env)) None)
       (\<lambda>_. bindE (generate_full_paper env sid info)
       (\<lambda>pc. bindE (update_context sid [SetPaperContent pc, SetCurrentStage COMPLETED])
       (\<lambda>_. bindE (update_session_status sid ''completed'')
       (\<lambda>_. bindE (add_message sid ''assistant'' (completion_message (texts env)) None)
       (\<lambda>_ w'. (Inr (CompletedResponse sid COMPLETED (completion_message (texts env)) pc
                        ''completed''), w')))))))
       w"

definition process_user_input ::
  "env \<Rightarrow> string \<Rightarrow> string \<Rightarrow> world \<Rightarrow> (exn + response) \<times> world" where
  "process_user_input env sid user_input w =
     (case get_session sid w of
        (None, w0) \<Rightarrow> (Inr (ErrorResponse session_missing), w0)
      | (Some _, w0) \<Rightarrow>
          bindE (add_message sid ''user'' user_input None)
            (\<lambda>_ w1.
               case get_context sid w1 of
                 (ctx, w2) \<Rightarrow>
                   (let stage = (case current_stage ctx of None \<Rightarrow> INITIAL | Some st \<Rightarrow> st);
                        info0 = (case collected_info ctx of None \<Rightarrow> [] | Some ci \<Rightarrow> ci)
                    in bindE (extract_information env user_input stage)
                         (\<lambda>extracted_info.
                            let info = dict_update info0 extracted_info
                            in bindE (update_context sid [SetCollectedInfo info])
                                 (\<lambda>_ w4.
                                    let current_round = length (session_messages w4 sid) div 2
                                    in if int current_round < min_rounds env then
                                         continue_information_collection env sid stage info
                                           current_round w4
                                       else
                                         (let completeness = check_information_completeness info
                                          in if is_complete completeness
                                                  \<or> max_rounds env \<le> int current_round then
                                               start_paper_generation env sid info w4
                                             else
                                               collect_missing_information env sid info
                                                 (missing_info completeness) w4)))
                         w2))
            w0)"

text \<open>\<open>regenerate_section\<close>; its argument \<open>additional_requirements\<close> is not used by the source.\<close>

definition regenerate_section ::
  "env \<Rightarrow> string \<Rightarrow> string \<Rightarrow> world \<Rightarrow> (exn + response) \<times> world" where
  "regenerate_section env sid sec w =
     (case get_context sid w of
        (ctx, w1) \<Rightarrow>
          (let info = (case collected_info ctx of None \<Rightarrow> [] | Some ci \<Rightarrow> ci)
           in case collaborative_generation env sec info 1 w1 of
                (result, w2) \<Rightarrow>
                  (let pc0 = (case paper_content ctx of None \<Rightarrow> [] | Some pc \<Rightarrow> pc);
                       pc = dict_set sec (final_content result) pc0
                   in bindE (update_context sid [SetPaperContent pc])
                        (\<lambda>_ w3. (Inr (RegeneratedResponse sid sec (final_content result)
                                         ''success''), w3))
                        w2)))"


section \<open>Export (paper\_generator.py)\<close>

text \<open>
  The titles of the sections, as UTF-8 bytes: U+6458 U+8981 (abstract), U+5F15 U+8A00
  (introduction), U+6587 U+732E U+7EFC U+8FF0 (literature review), U+7814 U+7A76 U+65B9
  U+6CD5 (methodology), U+7814 U+7A76 U+7ED3 U+679C (results), U+8BA8 U+8BBA
  (discussion), U+7ED3 U+8BBA (conclusion); the heading U+5B66 U+672F U+8BBA U+6587
  (academic paper) and the label U+751F U+6210 U+65F6 U+95F4 U+FF1A (generated at).
\<close>

definition title_abstract :: string where
  "title_abstract = [CHR 0xE6, CHR 0x91, CHR 0x98, CHR 0xE8, CHR 0xA6, CHR 0x81]"

definition title_introduction :: string where
  "title_introduction = [CHR 0xE5, CHR 0xBC, CHR 0x95, CHR 0xE8, CHR 0xA8, CHR 0x80]"

definition title_literature_review :: string where
  "title_literature_review = [CHR 0xE6, CHR 0x96, CHR 0x87, CHR 0xE7, CHR 0x8C, CHR 0xAE,
                              CHR 0xE7, CHR 0xBB, CHR 0xBC, CHR 0xE8, CHR 0xBF, CHR 0xB0]"

definition title_methodology :: string where
  "title_methodology = [CHR 0xE7, CHR 0xA0, CHR 0x94, CHR 0xE7, CHR 0xA9, CHR 0xB6,
                        CHR 0xE6, CHR 0x96, CHR 0xB9, CHR 0xE6, CHR 0xB3, CHR 0x95]"

definition title_results :: string where
  "title_results = [CHR 0xE7, CHR 0xA0, CHR 0x94, CHR 0xE7, CHR 0xA9, CHR 0xB6,
                    CHR 0xE7, CHR 0xBB, CHR 0x93, CHR 0xE6, CHR 0x9E, CHR 0x9C]"

definition title_discussion :: string where
  "title_discussion = [CHR 0xE8, CHR 0xAE, CHR 0xA8, CHR 0xE8, CHR 0xAE, CHR 0xBA]"

definition title_conclusion :: string where
  "title_conclusion = [CHR 0xE7, CHR 0xBB, CHR 0x93, CHR 0xE8, CHR 0xAE, CHR 0xBA]"

definition academic_paper :: string where
  "academic_paper = [CHR 0xE5, CHR 0xAD, CHR 0xA6, CHR 0xE6, CHR 0x9C, CHR 0xAF,
                     CHR 0xE8, CHR 0xAE, CHR 0xBA, CHR 0xE6, CHR 0x96, CHR 0x87]"

definition generated_at :: string where
  "generated_at = [CHR 0xE7, CHR 0x94, CHR 0x9F, CHR 0xE6, CHR 0x88, CHR 0x90, CHR 0xE6,
                   CHR 0x97, CHR 0xB6, CHR 0xE9, CHR 0x97, CHR 0xB4, CHR 0xEF, CHR 0xBC, CHR 0x9A]"

definition newline :: string where
  "newline = [CHR 0x0A]"

definition markdown_sections_order :: "(string \<times> string) list" where
  "markdown_sections_order =
     [(''abstract'', title_abstract @ '' (Abstract)''),
      (''introduction'', title_introduction @ '' (Introduction)''),
      (''literature_review'', title_literature_review @ '' (Literature Review)''),
      (''methodology'', title_methodology @ '' (Methodology)''),
      (''results'', title_results @ '' (Results)''),
      (''discussion'', title_discussion @ '' (Discussion)''),
      (''conclusion'', title_conclusion @ '' (Conclusion)'')]"

definition text_sections_order :: "(string \<times> string) list" where
  "text_sections_order =
     [(''abstract'', title_abstract),
      (''introduction'', title_introduction),
      (''literature_review'', title_literature_review),
      (''methodology'', title_methodology),
      (''results'', title_results),
      (''discussion'', title_discussion),
      (''conclusion'', title_conclusion)]"

text \<open>
  Both exports read the clock once; \<open>now\<close> is the text that
  \<open>datetime.now().strftime('%Y-%m-%d %H:%M:%S')\<close> returns at that moment.
\<close>

fun markdown_loop :: "string dict \<Rightarrow> (string \<times> string) list \<Rightarrow> string \<Rightarrow> string" where
  "markdown_loop pc [] markdown = markdown"
| "markdown_loop pc ((section_key, section_title) # rest) markdown =
     markdown_loop pc rest
       (case dict_get pc section_key of
          None \<Rightarrow> markdown
        | Some body \<Rightarrow>
            markdown @ (''## '' @ section_title @ newline @ newline) @ body @ (newline @ newline))"

definition export_as_markdown :: "string dict \<Rightarrow> string \<Rightarrow> string" where
  "export_as_markdown pc now =
     markdown_loop pc markdown_sections_order
       ((''# '' @ academic_paper @ newline @ newline)
        @ (generated_at @ now @ newline @ newline)
        @ (''---'' @ newline @ newline))"

fun text_loop :: "string dict \<Rightarrow> (string \<times> string) list \<Rightarrow> string \<Rightarrow> string" where
  "text_loop pc [] txt = txt"
| "text_loop pc ((section_key, section_title) # rest) txt =
     text_loop pc rest
       (case dict_get pc section_key of
          None \<Rightarrow> txt
        | Some body \<Rightarrow>
            txt @ (section_title @ newline) @ (replicate 60 CHR ''-'' @ newline @ newline)
              @ body @ (newline @ newline))"

definition export_as_text :: "string dict \<Rightarrow> string \<Rightarrow> string" where
  "export_as_text pc now =
     text_loop pc text_sections_order
       ((replicate 60 CHR ''='' @ newline)
        @ (academic_paper @ newline)
        @ (generated_at @ now @ newline)
        @ (replicate 60 CHR ''='' @ newline @ newline))"

definition get_paper_content :: "string \<Rightarrow> world \<Rightarrow> string dict option \<times> world" where
  "get_paper_content sid w = (case get_context sid w of (ctx, w1) \<Rightarrow> (paper_content ctx, w1))"

text \<open>
  \<open>export_paper\<close>; \<open>not paper_content\<close> holds for \<open>None\<close> and for the empty dict, and
  then the clock is not read.
\<close>

definition export_paper :: "string \<Rightarrow> string \<Rightarrow> string \<Rightarrow> world \<Rightarrow> string \<times> world" where
  "export_paper sid fmt now w =
     (case get_paper_content sid w of
        (None, w1) \<Rightarrow> ([], w1)
      | (Some pc, w1) \<Rightarrow>
          (if pc = [] then ([], w1)
           else if fmt = ''markdown'' then (export_as_markdown pc now, w1)
           else if fmt = ''text'' then (export_as_text pc now, w1)
           else (export_as_markdown pc now, w1)))"



section \<open>Vocabulary of the properties\<close>

text \<open>
  The structured-parse attempt of the extractor fails on the outcome of its chat call:
  the call raised (no backend, transport error), the reply has no brace-delimited block,
  or \<open>json.loads\<close> raises on the block.
\<close>

definition parse_fails :: "env \<Rightarrow> exn + string \<Rightarrow> bool" where
  "parse_fails env reply =
     (case reply of
        Inl e \<Rightarrow> True
      | Inr response \<Rightarrow>
          (case find_json_block response of
             None \<Rightarrow> True
           | Some block \<Rightarrow> json_loads env block = None))"

text \<open>
  What a caller observes of a session: \<open>session_of\<close> is what \<open>get_session\<close> returns, and
  \<open>collected_of\<close> what \<open>get_context(sid).get("collected_info", {})\<close> evaluates to.
  \<open>run_turns\<close> is a sequence of user turns on one session.
\<close>

definition session_of :: "world \<Rightarrow> string \<Rightarrow> session option" where
  "session_of w sid = fst (get_session sid w)"

definition collected_of :: "world \<Rightarrow> string \<Rightarrow> jvalue dict" where
  "collected_of w sid =
     (case collected_info (fst (get_context sid w)) of None \<Rightarrow> [] | Some ci \<Rightarrow> ci)"

fun run_turns :: "env \<Rightarrow> string \<Rightarrow> string list \<Rightarrow> world \<Rightarrow> world" where
  "run_turns env sid [] w = w"
| "run_turns env sid (user_input # rest) w =
     run_turns env sid rest (snd (process_user_input env sid user_input w))"



text \<open>
  \<open>turn_extraction\<close> is the mapping \<open>_extract_information\<close> returns in the turn
  \<open>process_user_input(sid, user_input)\<close>: the prefix of \<open>process_user_input\<close> up to that
  call (\<open>None\<close> for a session that does not exist, where the turn stops before it).
  \<open>carries_falsy\<close> says that a mapping has the field with a falsy value, and
  \<open>falsy_extraction\<close> that the extraction of some turn of a run does.
\<close>

definition turn_extraction :: "env \<Rightarrow> string \<Rightarrow> string \<Rightarrow> world \<Rightarrow> jvalue dict option" where
  "turn_extraction env sid user_input w =
     (case get_session sid w of
        (None, w0) \<Rightarrow> None
      | (Some _, w0) \<Rightarrow>
          (case add_message sid ''user'' user_input None w0 of
             (_, w1) \<Rightarrow>
               (case get_context sid w1 of
                  (ctx, w2) \<Rightarrow>
                    (case fst (extract_information env user_input
                                 (case current_stage ctx of None \<Rightarrow> INITIAL | Some st \<Rightarrow> st) w2) of
                       Inl e \<Rightarrow> None
                     | Inr extracted_info \<Rightarrow> Some extracted_info))))"

definition carries_falsy :: "jvalue dict \<Rightarrow> string \<Rightarrow> bool" where
  "carries_falsy extracted_info field =
     list_ex (\<lambda>(k, v). k = field \<and> \<not> truthy v) extracted_info"

fun falsy_extraction :: "env \<Rightarrow> string \<Rightarrow> string \<Rightarrow> string list \<Rightarrow> world \<Rightarrow> bool" where
  "falsy_extraction env sid field [] w = False"
| "falsy_extraction env sid field (user_input # rest) w =
     ((case turn_extraction env sid user_input w of
         None \<Rightarrow> False
       | Some extracted_info \<Rightarrow> carries_falsy extracted_info field)
      \<or> falsy_extraction env sid field rest (snd (process_user_input env sid user_input w)))"

text \<open>Concrete configurations, backends and sessions, for evaluating the operations.\<close>

definition sample_prompts :: prompts where
  "sample_prompts =
     \<lparr> extraction_system = ''extract'',
       extraction_prompt = (\<lambda>user_input stage. user_input),
       collector_prompt = (\<lambda>info stage. stage),
       generation_prompt = (\<lambda>sec info. sec),
       review_prompt = (\<lambda>cont sec. cont),
       optimization_prompt = (\<lambda>cont sec. cont),
       improvement_prompt = (\<lambda>cont rev opt. cont),
       notification = ''generating'',
       completion_message = ''done'',
       missing_prompt = (\<lambda>missing. missing) \<rparr>"

definition backend_always :: "string \<Rightarrow> nat \<Rightarrow> chat_request \<Rightarrow> exn + string" where
  "backend_always reply n r = Inr reply"




definition sample_env :: "(nat \<Rightarrow> chat_request \<Rightarrow> exn + string) \<Rightarrow> env" where
  "sample_env b =
     \<lparr> services = [''ollama''], backend = b, role_description = Map.empty,
       role_temperature = Map.empty, max_rounds = 15, min_rounds = 5,
       json_loads = (\<lambda>block. None), texts = sample_prompts \<rparr>"

definition empty_world :: world where
  "empty_world = \<lparr> active_sessions = Map.empty, disk = Map.empty, calls = 0 \<rparr>"

definition sample_context :: context_dict where
  "sample_context =
     \<lparr> collected_info = Some [], current_stage = Some INITIAL, paper_content = None,
       generation_process = [],
       other_keys = [(''missing_info'', JArr []), (''paper_outline'', JObj [])] \<rparr>"

definition sample_session :: "message list \<Rightarrow> context_dict \<Rightarrow> session" where
  "sample_session ms ctx =
     \<lparr> session_id = ''u_1'', user_id = ''u'', title = ''t'', messages = ms,
       session_context = ctx, status = ''active'' \<rparr>"

definition sample_world :: "session \<Rightarrow> world" where
  "sample_world s = \<lparr> active_sessions = [''u_1'' \<mapsto> s], disk = Map.empty, calls = 0 \<rparr>"

text \<open>
  A reply holding one JSON object with the topic field, UTF-8 bytes of
  \<open>{"<topic>": "<v>"}\<close> (the double quote is byte 0x22), and a parser that agrees with
  \<open>json.loads\<close> on that block for the texts \<open>trees\<close> and the empty text.
\<close>

definition sample_json_reply :: "string \<Rightarrow> string" where
  "sample_json_reply v =
     [CHR ''{'', CHR 0x22] @ field_topic @ [CHR 0x22, CHR '':'', CHR '' '', CHR 0x22] @ v
       @ [CHR 0x22, CHR ''}'']"

definition sample_json_loads :: "string \<Rightarrow> jvalue dict option" where
  "sample_json_loads block =
     (if block = sample_json_reply ''trees'' then Some [(field_topic, JStr ''trees'')]
      else if block = sample_json_reply [] then Some [(field_topic, JStr [])]
      else None)"

definition sample_message :: message where
  "sample_message = \<lparr> role = ''assistant'', content = ''hello'', metadata = [] \<rparr>"


section \<open>Properties\<close>

lemma missing_loop_filter:
  "missing_loop ci fs acc = acc @ filter (field_missing ci) fs"
  by (induction fs arbitrary: acc) simp_all

text \<open>
  C5. The completeness check is a function of \<open>collected_info\<close> alone over the six required
  fields, in the order topic, background, objective, method, data source, findings:
  \<open>is_complete\<close> holds exactly when each of the six is present with a truthy value,
  \<open>missing_info\<close> is the list of the absent-or-falsy required fields in that order, and
  \<open>completeness_rate\<close> is \<open>(6 - |missing_info|) / 6\<close>.
\<close>

theorem completeness_check_spec:
  "required_fields = [field_topic, field_background, field_objective, field_method,
                      field_data_source, field_findings]
   \<and> distinct required_fields
   \<and> missing_info (check_information_completeness ci)
       = filter (\<lambda>f. dict_get ci f = None \<or> (\<exists>v. dict_get ci f = Some v \<and> \<not> truthy v))
           required_fields
   \<and> (is_complete (check_information_completeness ci)
        \<longleftrightarrow> list_all (\<lambda>f. \<exists>v. dict_get ci f = Some v \<and> truthy v) required_fields)
   \<and> completeness_rate (check_information_completeness ci)
       = (6 - of_nat (length (missing_info (check_information_completeness ci)))) / 6"
proof -
  have fm: "field_missing ci = (\<lambda>f. dict_get ci f = None \<or> (\<exists>v. dict_get ci f = Some v \<and> \<not> truthy v))"
    by (rule ext) (simp add: field_missing_def split: option.splits)
  have miss: "missing_info (check_information_completeness ci)
      = filter (field_missing ci) required_fields"
    by (simp add: check_information_completeness_def Let_def missing_loop_filter)
  have dist: "distinct required_fields"
    by (simp add: required_fields_def field_topic_def field_background_def
        field_objective_def field_method_def field_data_source_def field_findings_def)
  have compl: "is_complete (check_information_completeness ci)
      \<longleftrightarrow> filter (field_missing ci) required_fields = []"
    by (simp add: check_information_completeness_def Let_def missing_loop_filter)
  have all: "filter (field_missing ci) required_fields = []
      \<longleftrightarrow> list_all (\<lambda>f. \<exists>v. dict_get ci f = Some v \<and> truthy v) required_fields"
    by (auto simp: filter_empty_conv list_all_iff field_missing_def split: option.splits)
  have len: "length required_fields = 6"
    by (simp add: required_fields_def)
  have rate: "completeness_rate (check_information_completeness ci)
      = (6 - of_nat (length (missing_info (check_information_completeness ci)))) / 6"
    by (simp add: check_information_completeness_def Let_def len)
  show ?thesis
    using miss dist compl all rate by (simp add: fm required_fields_def)
qed

subsection \<open>Role assignment\<close>

lemma role_names_distinct:
  "INFORMATION_COLLECTOR \<noteq> CONTENT_GENERATOR" "INFORMATION_COLLECTOR \<noteq> QUALITY_REVIEWER"
  "INFORMATION_COLLECTOR \<noteq> STRUCTURE_OPTIMIZER" "CONTENT_GENERATOR \<noteq> QUALITY_REVIEWER"
  "CONTENT_GENERATOR \<noteq> STRUCTURE_OPTIMIZER" "QUALITY_REVIEWER \<noteq> STRUCTURE_OPTIMIZER"
  "CONTENT_GENERATOR \<noteq> INFORMATION_COLLECTOR" "QUALITY_REVIEWER \<noteq> INFORMATION_COLLECTOR"
  "STRUCTURE_OPTIMIZER \<noteq> INFORMATION_COLLECTOR" "QUALITY_REVIEWER \<noteq> CONTENT_GENERATOR"
  "STRUCTURE_OPTIMIZER \<noteq> CONTENT_GENERATOR" "STRUCTURE_OPTIMIZER \<noteq> QUALITY_REVIEWER"
  by (simp_all add: INFORMATION_COLLECTOR_def CONTENT_GENERATOR_def
      QUALITY_REVIEWER_def STRUCTURE_OPTIMIZER_def)

lemma enumerate_roles:
  "enumerate 0 roles = [(0, INFORMATION_COLLECTOR), (Suc 0, CONTENT_GENERATOR),
                        (2, QUALITY_REVIEWER), (3, STRUCTURE_OPTIMIZER)]"
  by (simp add: roles_def numeral_2_eq_2 numeral_3_eq_3)

lemma assign_many:
  assumes "svcs \<noteq> []" "length svcs \<noteq> 1"
  shows "assign_services_to_roles svcs =
     [(INFORMATION_COLLECTOR, svcs ! (0 mod length svcs)),
      (CONTENT_GENERATOR, svcs ! (1 mod length svcs)),
      (QUALITY_REVIEWER, svcs ! (2 mod length svcs)),
      (STRUCTURE_OPTIMIZER, svcs ! (3 mod length svcs))]"
  using assms
  by (simp add: assign_services_to_roles_def enumerate_roles dict_set_def role_names_distinct)

lemma assign_one:
  assumes "length svcs = 1"
  shows "assign_services_to_roles svcs =
     [(INFORMATION_COLLECTOR, svcs ! 0),
      (CONTENT_GENERATOR, svcs ! 0),
      (QUALITY_REVIEWER, svcs ! 0),
      (STRUCTURE_OPTIMIZER, svcs ! 0)]"
proof -
  from assms have "svcs \<noteq> []" by auto
  with assms show ?thesis by (simp add: assign_services_to_roles_def Let_def)
qed

lemma upt_4: "[0..<4] = [0, 1, 2, 3]"
  by (simp add: upt_rec numeral_eq_Suc)

lemma assign_lookup:
  assumes "svcs \<noteq> []"
  shows "map (dict_get (assign_services_to_roles svcs)) roles
        = map (\<lambda>i. Some (svcs ! (i mod length svcs))) [0..<4]"
proof (cases "length svcs = 1")
  case True
  then show ?thesis
    by (simp add: assign_one roles_def dict_get_def upt_4 role_names_distinct)
next
  case False
  then show ?thesis using assms
    by (simp add: assign_many roles_def dict_get_def upt_4 role_names_distinct)
qed

text \<open>
  C2. With \<open>N \<ge> 1\<close> registered backends, role \<open>i\<close> of the fixed order collector,
  generator, reviewer, optimizer is assigned the backend at index \<open>i mod N\<close> of the
  registered names, and the four roles are exactly the keys of the assignment; with
  \<open>N = 1\<close> all four roles are assigned the single backend; with no backend the assignment
  is empty.
\<close>

theorem role_assignment_round_robin:
  "(svcs \<noteq> [] \<longrightarrow>
      map (dict_get (assign_services_to_roles svcs)) roles
        = map (\<lambda>i. Some (svcs ! (i mod length svcs))) [0..<4]
      \<and> dict_keys (assign_services_to_roles svcs) = roles)
   \<and> (length svcs = 1 \<longrightarrow>
      map (dict_get (assign_services_to_roles svcs)) roles
        = replicate 4 (Some (svcs ! 0)))
   \<and> assign_services_to_roles [] = []"
proof (intro conjI impI)
  assume ne: "svcs \<noteq> []"
  show "map (dict_get (assign_services_to_roles svcs)) roles
        = map (\<lambda>i. Some (svcs ! (i mod length svcs))) [0..<4]"
    by (rule assign_lookup [OF ne])
  show "dict_keys (assign_services_to_roles svcs) = roles"
  proof (cases "length svcs = 1")
    case True
    then show ?thesis by (simp add: assign_one roles_def dict_keys_def)
  next
    case False
    then show ?thesis using ne by (simp add: assign_many roles_def dict_keys_def)
  qed
next
  assume "length svcs = 1"
  then show "map (dict_get (assign_services_to_roles svcs)) roles
        = replicate 4 (Some (svcs ! 0))"
    by (simp add: assign_one roles_def dict_get_def numeral_eq_Suc role_names_distinct)
next
  show "assign_services_to_roles [] = []"
    by (simp add: assign_services_to_roles_def)
qed

theorem role_assignment_round_robin_witness:
  "[''a'', ''b'', ''c''] \<noteq> []
   \<and> map (dict_get (assign_services_to_roles [''a'', ''b'', ''c''])) roles
       = map (\<lambda>i. Some ([''a'', ''b'', ''c''] ! (i mod length [''a'', ''b'', ''c'']))) [0..<4]
   \<and> length [''a''] = 1
   \<and> map (dict_get (assign_services_to_roles [''a''])) roles = replicate 4 (Some ([''a''] ! 0))"
proof -
  have three: "[''a'', ''b'', ''c''] \<noteq> []" by simp
  have one: "length [''a''] = 1" by simp
  from role_assignment_round_robin [of "[''a'', ''b'', ''c'']"] three
  have r3: "map (dict_get (assign_services_to_roles [''a'', ''b'', ''c''])) roles
       = map (\<lambda>i. Some ([''a'', ''b'', ''c''] ! (i mod length [''a'', ''b'', ''c'']))) [0..<4]"
    by blast
  from role_assignment_round_robin [of "[''a'']"] one
  have r1: "map (dict_get (assign_services_to_roles [''a''])) roles
       = replicate 4 (Some ([''a''] ! 0))"
    by blast
  from three one r3 r1 show ?thesis by blast
qed

subsection \<open>Session store\<close>

text \<open>
  C10. For a session identifier that is neither held in memory nor stored on disk,
  \<open>get_context\<close> returns the empty mapping and \<open>get_messages\<close> the empty list, without
  raising, while \<open>add_message\<close>, \<open>update_context\<close> and \<open>update_session_status\<close> raise the
  session-not-found error; none of them changes the store.
\<close>

theorem unknown_session:
  assumes "active_sessions w sid = None" and "disk w sid = None"
  shows "get_context sid w = (empty_context, w)
         \<and> get_messages sid limit w = ([], w)
         \<and> add_message sid r c md w = (Inl (session_not_found sid), w)
         \<and> update_context sid ups w = (Inl (session_not_found sid), w)
         \<and> update_session_status sid st w = (Inl (session_not_found sid), w)"
  using assms
  by (simp add: get_context_def get_messages_def add_message_def update_context_def
      update_session_status_def get_session_def load_session_def)

theorem unknown_session_witness:
  "get_context ''nobody'' \<lparr> active_sessions = Map.empty, disk = Map.empty, calls = 0 \<rparr>
     = (empty_context, \<lparr> active_sessions = Map.empty, disk = Map.empty, calls = 0 \<rparr>)
   \<and> get_messages ''nobody'' None \<lparr> active_sessions = Map.empty, disk = Map.empty, calls = 0 \<rparr>
     = ([], \<lparr> active_sessions = Map.empty, disk = Map.empty, calls = 0 \<rparr>)
   \<and> add_message ''nobody'' ''user'' ''hello'' None
        \<lparr> active_sessions = Map.empty, disk = Map.empty, calls = 0 \<rparr>
     = (Inl (session_not_found ''nobody''),
        \<lparr> active_sessions = Map.empty, disk = Map.empty, calls = 0 \<rparr>)
   \<and> update_context ''nobody'' [SetCurrentStage ''results'']
        \<lparr> active_sessions = Map.empty, disk = Map.empty, calls = 0 \<rparr>
     = (Inl (session_not_found ''nobody''),
        \<lparr> active_sessions = Map.empty, disk = Map.empty, calls = 0 \<rparr>)
   \<and> update_session_status ''nobody'' ''completed''
        \<lparr> active_sessions = Map.empty, disk = Map.empty, calls = 0 \<rparr>
     = (Inl (session_not_found ''nobody''),
        \<lparr> active_sessions = Map.empty, disk = Map.empty, calls = 0 \<rparr>)"
  using unknown_session [of "\<lparr> active_sessions = Map.empty, disk = Map.empty, calls = 0 \<rparr>"
      "''nobody''" None "''user''" "''hello''" None "[SetCurrentStage ''results'']" "''completed''"]
  by simp

subsection \<open>Information extractor\<close>

lemma find_json_block_no_open: "CHR ''{'' \<notin> set r \<Longrightarrow> find_json_block r = None"
  by (induction r) auto

lemma brace_body_no_close: "CHR ''}'' \<notin> set cs \<Longrightarrow> brace_body cs = None"
  by (simp add: brace_body_def Let_def dropWhile_eq_Nil_conv)

lemma find_json_block_no_close: "CHR ''}'' \<notin> set r \<Longrightarrow> find_json_block r = None"
  by (induction r) (auto simp: brace_body_no_close)

text \<open>
  C4. The extractor never raises: it returns a mapping in every case. Whenever the
  structured-parse attempt fails (the chat call raises, the reply has no brace-delimited
  block, or \<open>json.loads\<close> raises on the block), and in particular when no backend is
  registered, the mapping is the single entry from the catch-all field to the raw text of
  the user turn.
\<close>

theorem extraction_fallback_on_failure:
  "(\<exists>d. fst (extract_information env user_input stage w) = Inr d)
   \<and> (parse_fails env
         (fst (service_manager_chat env (extraction_messages env user_input stage) None (3 / 10)
                 1000 w))
       \<longrightarrow> fst (extract_information env user_input stage w)
             = Inr [(catch_all_field, JStr user_input)])
   \<and> (services env = [] \<longrightarrow>
        fst (extract_information env user_input stage w)
          = Inr [(catch_all_field, JStr user_input)])"
proof (intro conjI impI)
  show "\<exists>d. fst (extract_information env user_input stage w) = Inr d"
    by (simp add: extract_information_def split: prod.splits sum.splits)
next
  assume "parse_fails env
         (fst (service_manager_chat env (extraction_messages env user_input stage) None (3 / 10)
                 1000 w))"
  then show "fst (extract_information env user_input stage w)
             = Inr [(catch_all_field, JStr user_input)]"
    by (auto simp: extract_information_def extract_try_def bindE_def parse_fails_def
        extraction_fallback_def Let_def
        split: prod.splits sum.splits option.splits)
next
  assume "services env = []"
  then show "fst (extract_information env user_input stage w)
      = Inr [(catch_all_field, JStr user_input)]"
    by (simp add: extract_information_def extract_try_def bindE_def service_manager_chat_def
        get_service_def first_service_def extraction_fallback_def Let_def)
qed

text \<open>A reply without a JSON object: the raw text is stored under the catch-all field.\<close>

theorem extraction_fallback_on_failure_witness:
  "fst (extract_information (sample_env (backend_always ''no json here'')) ''my topic'' INITIAL
         empty_world)
     = Inr [(catch_all_field, JStr ''my topic'')]"
proof -
  have "parse_fails (sample_env (backend_always ''no json here''))
         (fst (service_manager_chat (sample_env (backend_always ''no json here''))
                 (extraction_messages (sample_env (backend_always ''no json here''))
                    ''my topic'' INITIAL)
                 None (3 / 10) 1000 empty_world))"
    by (simp add: parse_fails_def service_manager_chat_def get_service_def first_service_def
        sample_env_def backend_always_def)
  with extraction_fallback_on_failure
    [of "sample_env (backend_always ''no json here'')" "''my topic''" INITIAL empty_world]
  show ?thesis by blast
qed

subsection \<open>Export\<close>

lemma get_session_idem:
  "get_session sid (snd (get_session sid w)) = (fst (get_session sid w), snd (get_session sid w))"
  by (simp add: get_session_def split: option.splits)

lemma get_context_idem:
  "get_context sid (snd (get_context sid w)) = (fst (get_context sid w), snd (get_context sid w))"
proof -
  have 1: "snd (get_context sid w) = snd (get_session sid w)" for w
    by (simp add: get_context_def split: prod.splits option.splits)
  have 2: "fst (get_context sid w)
      = (case fst (get_session sid w) of None \<Rightarrow> empty_context | Some s \<Rightarrow> session_context s)" for w
    by (simp add: get_context_def split: prod.splits option.splits)
  have 3: "fst (get_context sid (snd (get_session sid w))) = fst (get_context sid w)"
    unfolding 2 by (simp add: get_session_idem)
  have 4: "snd (get_context sid (snd (get_session sid w))) = snd (get_session sid w)"
    unfolding 1 by (simp add: get_session_idem)
  show ?thesis
    using 3 4 by (simp add: 1 prod_eq_iff)
qed

lemma export_paper_snd: "snd (export_paper sid fmt now w) = snd (get_context sid w)"
  by (simp add: export_paper_def get_paper_content_def split: prod.splits option.splits)

lemma export_paper_fst:
  "fst (export_paper sid fmt now w) =
     (case paper_content (fst (get_context sid w)) of
        None \<Rightarrow> []
      | Some pc \<Rightarrow>
          if pc = [] then []
          else if fmt = ''text'' then export_as_text pc now
          else export_as_markdown pc now)"
  by (simp add: export_paper_def get_paper_content_def split: prod.splits option.splits)

text \<open>
  C8 (as the code has it). The export embeds the time of the call, to the second.
  Exporting the same \<open>paper_content\<close> twice in the same format, with nothing changed in
  between, gives identical output when both calls read the same time from the clock: the
  output of an export is the same after an earlier export (made at any time) as without
  it.
\<close>

theorem export_twice_same_clock:
  "fst (export_paper sid fmt now (snd (export_paper sid fmt now w)))
     = fst (export_paper sid fmt now w)
   \<and> fst (export_paper sid fmt now (snd (export_paper sid fmt earlier w)))
     = fst (export_paper sid fmt now w)"
  by (simp add: export_paper_fst export_paper_snd get_context_idem)

text \<open>
  The claim as stated fails: two exports of the same session, one second apart, differ.
\<close>

theorem export_twice_counterexample:
  "fst (export_paper ''u_1'' ''markdown'' ''2026-01-01 00:00:01''
          (snd (export_paper ''u_1'' ''markdown'' ''2026-01-01 00:00:00''
             (sample_world (sample_session []
                (sample_context\<lparr>paper_content := Some [(''abstract'', ''A'')]\<rparr>))))))
     \<noteq> fst (export_paper ''u_1'' ''markdown'' ''2026-01-01 00:00:00''
            (sample_world (sample_session []
               (sample_context\<lparr>paper_content := Some [(''abstract'', ''A'')]\<rparr>))))"
  by (simp add: export_paper_fst export_paper_snd get_context_idem get_context_def get_session_def
      sample_world_def sample_session_def sample_context_def export_as_markdown_def
      markdown_sections_order_def dict_get_def)

subsection \<open>Collaborative generation\<close>








declare optimization_loop.simps [simp del]











subsection \<open>The store\<close>

lemma dict_get_set: "dict_get (dict_set k v d) k' = (if k' = k then Some v else dict_get d k')"
  by (simp add: dict_get_def dict_set_def update_conv')

lemma dict_keys_set:
  "dict_keys (dict_set k v d) = (if k \<in> set (dict_keys d) then dict_keys d else dict_keys d @ [k])"
  by (simp add: dict_keys_def dict_set_def update_keys)

lemma active_store [simp]:
  "active_sessions (store_session sid s w) = (active_sessions w)(sid \<mapsto> s)"
  by (simp add: store_session_def save_session_def)

lemma calls_store [simp]: "calls (store_session sid s w) = calls w"
  by (simp add: store_session_def save_session_def)

lemma get_session_active:
  "active_sessions w sid = Some s \<Longrightarrow> get_session sid w = (Some s, w)"
  by (simp add: get_session_def)

lemma get_session_Some:
  "get_session sid w = (Some s, w0) \<Longrightarrow> active_sessions w0 sid = Some s \<and> calls w0 = calls w"
  by (auto simp: get_session_def split: option.splits)

lemma get_session_None:
  "get_session sid w = (None, w0) \<Longrightarrow> w0 = w"
  by (auto simp: get_session_def split: option.splits)

lemma add_message_active:
  "active_sessions w sid = Some s \<Longrightarrow>
     add_message sid r c None w
       = (Inr \<lparr> role = r, content = c, metadata = [] \<rparr>,
          store_session sid (s\<lparr>messages := messages s @ [\<lparr> role = r, content = c, metadata = [] \<rparr>]\<rparr>) w)"
  by (simp add: add_message_def get_session_active Let_def)

lemma update_context_active:
  "active_sessions w sid = Some s \<Longrightarrow>
     update_context sid ups w
       = (Inr (), store_session sid
                    (s\<lparr>session_context := fold apply_update ups (session_context s)\<rparr>) w)"
  by (simp add: update_context_def get_session_active)

lemma update_session_status_active:
  "active_sessions w sid = Some s \<Longrightarrow>
     update_session_status sid st w = (Inr (), store_session sid (s\<lparr>status := st\<rparr>) w)"
  by (simp add: update_session_status_def get_session_active)

lemma get_context_active:
  "active_sessions w sid = Some s \<Longrightarrow> get_context sid w = (session_context s, w)"
  by (simp add: get_context_def get_session_active)

lemma get_messages_for_api_active:
  "active_sessions w sid = Some s \<Longrightarrow>
     get_messages_for_api sid (Some 6) w
       = (map (\<lambda>m. (role m, content m)) (last_slice 6 (messages s)), w)"
  by (simp add: get_messages_for_api_def get_messages_def get_session_active)

lemma session_messages_active:
  "active_sessions w sid = Some s \<Longrightarrow> session_messages w sid = messages s"
  by (simp add: session_messages_def)

lemma bindE_Inr: "m w = (Inr a, w') \<Longrightarrow> bindE m f w = f a w'"
  by (simp add: bindE_def)

subsection \<open>Backend calls leave the sessions alone\<close>

lemma chat_active [simp]:
  "active_sessions (snd (service_manager_chat env msgs name t m w)) = active_sessions w"
  by (simp add: service_manager_chat_def split: option.splits)

lemma snd_chat_case:
  "snd (case p of (x, w1) \<Rightarrow> (case x of Inl e \<Rightarrow> (g e, w1) | Inr r \<Rightarrow> (f r, w1))) = snd p"
  by (cases p) (auto split: sum.splits)

lemma collect_information_active [simp]:
  "active_sessions (snd (collect_information env st info h w)) = active_sessions w"
  by (simp add: collect_information_def Let_def snd_chat_case)

lemma generate_content_active [simp]:
  "active_sessions (snd (generate_content env sec info w)) = active_sessions w"
  by (simp add: generate_content_def Let_def snd_chat_case)

lemma review_quality_active [simp]:
  "active_sessions (snd (review_quality env c sec w)) = active_sessions w"
  by (simp add: review_quality_def Let_def snd_chat_case)

lemma optimize_structure_active [simp]:
  "active_sessions (snd (optimize_structure env c sec w)) = active_sessions w"
  by (simp add: optimize_structure_def Let_def snd_chat_case)

lemma optimization_loop_active [simp]:
  "active_sessions (snd (optimization_loop env sec idxs cur tr w)) = active_sessions w"
proof (induction idxs arbitrary: cur tr w)
  case Nil
  show ?case by (simp add: optimization_loop.simps)
next
  case (Cons i rest)
  obtain rv w1 where rv: "review_quality env cur sec w = (rv, w1)" by force
  have w1: "active_sessions w1 = active_sessions w"
    using review_quality_active [of env cur sec w] rv by simp
  obtain oc w2 where oc: "optimize_structure env cur sec w1 = (oc, w2)" by force
  have w2: "active_sessions w2 = active_sessions w"
    using optimize_structure_active [of env cur sec w1] oc w1 by simp
  show ?case
  proof (simp only: optimization_loop.simps rv oc Let_def prod.case, goal_cases)
    case 1
    show ?case
    proof (cases "service_manager_chat env
        [(''system'', description_of env CONTENT_GENERATOR (content_generation @ expert)),
         (''user'', improvement_prompt (texts env) cur (review rv) oc)]
        (dict_get (role_service_mapping env) CONTENT_GENERATOR) (7 / 10) 4000 w2")
      case (Pair r w3)
      have w3: "active_sessions w3 = active_sessions w"
        using chat_active [of env _ _ _ _ w2] Pair w2 by (metis snd_conv)
      show ?thesis
        by (cases r) (simp_all add: Pair w3 Cons.IH)
    qed
  qed
qed

lemma collaborative_generation_active [simp]:
  "active_sessions (snd (collaborative_generation env sec info k w)) = active_sessions w"
proof -
  obtain initial w1 where gen: "generate_content env sec info w = (initial, w1)" by force
  have w1: "active_sessions w1 = active_sessions w"
    using generate_content_active [of env sec info w] gen by simp
  obtain r w2 where loop: "optimization_loop env sec [0..<k] initial
      [\<lparr> iteration = 0, entry_type = ''initial_generation'', entry_content = initial \<rparr>] w1 = (r, w2)"
    by (meson surj_pair)
  have w2: "active_sessions w2 = active_sessions w"
    using arg_cong [OF loop, of "\<lambda>p. active_sessions (snd p)"] w1 by simp
  show ?thesis
    by (cases r) (auto simp: collaborative_generation_def gen loop w2 split: option.splits)
qed

lemma extract_information_active [simp]:
  "active_sessions (snd (extract_information env ui st w)) = active_sessions w"
proof -
  have "snd (extract_information env ui st w)
          = snd (service_manager_chat env (extraction_messages env ui st) None (3 / 10) 1000 w)"
    by (simp add: extract_information_def extract_try_def bindE_def Let_def
        split: prod.splits sum.splits option.splits)
  then show ?thesis by simp
qed

lemma extract_information_Inr:
  "\<exists>d. fst (extract_information env ui st w) = Inr d"
  by (simp add: extract_information_def split: prod.splits sum.splits)

subsection \<open>Effects of the store operations on a session held in memory\<close>

lemma session_of_active: "active_sessions w sid = Some s \<Longrightarrow> session_of w sid = Some s"
  by (simp add: session_of_def get_session_active)

lemma get_context_of_session:
  "get_session sid w = (Some s, w0) \<Longrightarrow> get_context sid w = (session_context s, w0)"
  by (simp add: get_context_def)

lemma update_context_ex:
  assumes "active_sessions w sid = Some s"
  shows "\<exists>w'. update_context sid ups w = (Inr (), w')
           \<and> active_sessions w' sid
               = Some (s\<lparr>session_context := fold apply_update ups (session_context s)\<rparr>)
           \<and> calls w' = calls w"
  by (simp add: update_context_active [OF assms])

lemma add_message_ex:
  assumes "active_sessions w sid = Some s"
  shows "\<exists>w'. add_message sid r c None w = (Inr \<lparr> role = r, content = c, metadata = [] \<rparr>, w')
           \<and> active_sessions w' sid
               = Some (s\<lparr>messages := messages s @ [\<lparr> role = r, content = c, metadata = [] \<rparr>]\<rparr>)
           \<and> calls w' = calls w"
  by (simp add: add_message_active [OF assms])

lemma update_session_status_ex:
  assumes "active_sessions w sid = Some s"
  shows "\<exists>w'. update_session_status sid st w = (Inr (), w')
           \<and> active_sessions w' sid = Some (s\<lparr>status := st\<rparr>)
           \<and> calls w' = calls w"
  by (simp add: update_session_status_active [OF assms])

lemma collaborative_generation_ex:
  "\<exists>w'. collaborative_generation env sec info k w
           = (fst (collaborative_generation env sec info k w), w')
         \<and> active_sessions w' = active_sessions w"
  by (metis collaborative_generation_active prod.collapse)

subsection \<open>Regeneration\<close>

text \<open>
  C9. For a session that exists, with its section-to-text mapping \<open>paper_content\<close> (the
  empty mapping when the key is absent), regenerating section \<open>sec\<close> returns the freshly
  generated content with status \<open>success\<close> and stores it under \<open>sec\<close>; the entry of every
  other section is unchanged, and so is everything else of the session (its messages,
  its status, the current stage and the collected information): the regeneration does
  not go through the stage controller.
\<close>

theorem regenerate_section_frame:
  fixes env sid sec w s w0
  defines "info \<equiv> (case collected_info (session_context s) of None \<Rightarrow> [] | Some ci \<Rightarrow> ci)"
    and "pc0 \<equiv> (case paper_content (session_context s) of None \<Rightarrow> [] | Some pc \<Rightarrow> pc)"
  defines "new \<equiv> final_content (fst (collaborative_generation env sec info 1 w0))"
  assumes gs: "get_session sid w = (Some s, w0)"
  shows "fst (regenerate_section env sid sec w) = Inr (RegeneratedResponse sid sec new ''success'')
       \<and> session_of (snd (regenerate_section env sid sec w)) sid
           = Some (s\<lparr>session_context :=
                      (session_context s)\<lparr>paper_content := Some (dict_set sec new pc0)\<rparr>\<rparr>)
       \<and> dict_get (dict_set sec new pc0) sec = Some new
       \<and> (\<forall>other. other \<noteq> sec \<longrightarrow> dict_get (dict_set sec new pc0) other = dict_get pc0 other)"
proof -
  from get_session_Some [OF gs] have act0: "active_sessions w0 sid = Some s" by simp
  from collaborative_generation_ex [of env sec info 1 w0] obtain w2 where
    gen: "collaborative_generation env sec info 1 w0
            = (fst (collaborative_generation env sec info 1 w0), w2)"
    and act2: "active_sessions w2 = active_sessions w0" by blast
  from act0 act2 have "active_sessions w2 sid = Some s" by simp
  from update_context_ex [OF this, of "[SetPaperContent (dict_set sec new pc0)]"]
  obtain w3 where
    upd: "update_context sid [SetPaperContent (dict_set sec new pc0)] w2 = (Inr (), w3)"
    and act3: "active_sessions w3 sid
       = Some (s\<lparr>session_context :=
            fold apply_update [SetPaperContent (dict_set sec new pc0)] (session_context s)\<rparr>)"
    by blast
  have reg: "regenerate_section env sid sec w
      = (Inr (RegeneratedResponse sid sec new ''success''), w3)"
    unfolding regenerate_section_def get_context_of_session [OF gs] prod.case Let_def
      info_def [symmetric]
    apply (subst gen)
    apply (simp only: prod.case pc0_def [symmetric] new_def [symmetric])
    apply (simp add: bindE_def upd)
    done
  show ?thesis
    using act3 by (simp add: reg session_of_active dict_get_set)
qed

subsection \<open>Stage controller\<close>

lemma stage_index:
  "stage_flow ! (min (if length stage_flow \<le> n then length stage_flow - 1 else n)
                     (length stage_flow - 1))
     = stage_flow ! (min n (length stage_flow - 1))"
proof (cases "length stage_flow \<le> n")
  case True
  then have "min n (length stage_flow - 1) = length stage_flow - 1" by simp
  with True show ?thesis by simp
next
  case False
  then show ?thesis by simp
qed

lemma continue_information_collection_effect:
  fixes env sid stage info n w s
  defines "next_stage \<equiv> stage_flow ! (min n (length stage_flow - 1))"
  defines "history \<equiv> map (\<lambda>m. (role m, content m)) (last_slice 6 (messages s))"
  assumes act: "active_sessions w sid = Some s"
  shows "\<exists>reply wa wb w'.
      active_sessions wa = (active_sessions w)(sid \<mapsto>
         s\<lparr>session_context := (session_context s)\<lparr>current_stage := Some next_stage\<rparr>\<rparr>)
      \<and> calls wa = calls w
      \<and> collect_information env next_stage info history wa = (reply, wb)
      \<and> continue_information_collection env sid stage info n w
           = (Inr (CollectingResponse sid next_stage reply (n + 1) ''collecting''), w')
      \<and> active_sessions w' sid
           = Some (s\<lparr>messages := messages s @
                       [\<lparr> role = ''assistant'', content = reply, metadata = [] \<rparr>],
                    session_context := (session_context s)\<lparr>current_stage := Some next_stage\<rparr>\<rparr>)"
proof -
  let ?sa = "s\<lparr>session_context := (session_context s)\<lparr>current_stage := Some next_stage\<rparr>\<rparr>"
  let ?wa = "store_session sid ?sa w"
  have upd: "update_context sid [SetCurrentStage next_stage] w = (Inr (), ?wa)"
    by (simp add: update_context_active [OF act])
  have acta: "active_sessions ?wa sid = Some ?sa" by simp
  have hist: "get_messages_for_api sid (Some 6) ?wa = (history, ?wa)"
    by (simp add: get_messages_for_api_active [OF acta] history_def)
  obtain reply wb where col: "collect_information env next_stage info history ?wa = (reply, wb)"
    by (meson surj_pair)
  have actb: "active_sessions wb = active_sessions ?wa"
    using arg_cong [OF col, of "\<lambda>p. active_sessions (snd p)"] by simp
  from acta actb have "active_sessions wb sid = Some ?sa" by simp
  from add_message_ex [OF this, of "''assistant''" reply]
  obtain w' where add: "add_message sid ''assistant'' reply None wb
        = (Inr \<lparr> role = ''assistant'', content = reply, metadata = [] \<rparr>, w')"
    and act': "active_sessions w' sid
        = Some (?sa\<lparr>messages := messages ?sa @
                  [\<lparr> role = ''assistant'', content = reply, metadata = [] \<rparr>]\<rparr>)"
    by blast
  have res: "continue_information_collection env sid stage info n w
           = (Inr (CollectingResponse sid next_stage reply (n + 1) ''collecting''), w')"
    unfolding continue_information_collection_def Let_def stage_index next_stage_def [symmetric]
    by (simp add: bindE_def upd hist col add)
  show ?thesis
    apply (rule exI [where x = reply])
    apply (rule exI [where x = ?wa])
    apply (rule exI [where x = wb])
    apply (rule exI [where x = w'])
    using col res act' by simp
qed

lemma collect_missing_information_effect:
  assumes act: "active_sessions w sid = Some s"
  shows "\<exists>w'. collect_missing_information env sid info missing w
           = (Inr (MissingResponse sid ''collecting_missing''
                     (missing_prompt (texts env) (join ideographic_comma missing)) missing
                     ''collecting''), w')
         \<and> active_sessions w' sid
           = Some (s\<lparr>messages := messages s @
                       [\<lparr> role = ''assistant'',
                          content = missing_prompt (texts env) (join ideographic_comma missing),
                          metadata = [] \<rparr>]\<rparr>)"
proof -
  let ?p = "missing_prompt (texts env) (join ideographic_comma missing)"
  from add_message_ex [OF act, of "''assistant''" ?p]
  obtain w' where add: "add_message sid ''assistant'' ?p None w
        = (Inr \<lparr> role = ''assistant'', content = ?p, metadata = [] \<rparr>, w')"
    and act': "active_sessions w' sid
        = Some (s\<lparr>messages := messages s @
                  [\<lparr> role = ''assistant'', content = ?p, metadata = [] \<rparr>]\<rparr>)"
    by blast
  have "collect_missing_information env sid info missing w
           = (Inr (MissingResponse sid ''collecting_missing'' ?p missing ''collecting''), w')"
    by (simp add: collect_missing_information_def Let_def bindE_def add)
  with act' show ?thesis by blast
qed

lemma full_paper_loop_effect:
  assumes "active_sessions w sid = Some s"
  shows "\<exists>pc' gp w'.
      full_paper_loop env sid info secs pc w = (Inr pc', w')
      \<and> active_sessions w' sid
          = Some (s\<lparr>session_context := (session_context s)\<lparr>generation_process := gp\<rparr>\<rparr>)
      \<and> dict_keys pc'
          = fold (\<lambda>sec ks. if sec \<in> set ks then ks else ks @ [sec]) secs (dict_keys pc)"
  using assms
proof (induction secs arbitrary: pc w s)
  case Nil
  have "active_sessions w sid = Some (s\<lparr>session_context := (session_context s)\<lparr>generation_process :=
      generation_process (session_context s)\<rparr>\<rparr>)"
    using Nil by simp
  then show ?case
    apply (intro exI [where x = pc] exI [where x = "generation_process (session_context s)"]
        exI [where x = w])
    apply simp
    done
next
  case (Cons sec rest)
  obtain res w1 where gen: "collaborative_generation env sec info 1 w = (res, w1)"
    by (meson surj_pair)
  have act1: "active_sessions w1 = active_sessions w"
    using arg_cong [OF gen, of "\<lambda>p. active_sessions (snd p)"] by simp
  from Cons.prems act1 have a1: "active_sessions w1 sid = Some s" by simp
  let ?s2 = "s\<lparr>session_context :=
            fold apply_update [SetGenerationProcess sec (iterations res)] (session_context s)\<rparr>"
  let ?w2 = "store_session sid ?s2 w1"
  have upd: "update_context sid [SetGenerationProcess sec (iterations res)] w1 = (Inr (), ?w2)"
    by (rule update_context_active [OF a1])
  have act2: "active_sessions ?w2 sid = Some ?s2" by simp
  from Cons.IH [OF act2, of "dict_set sec (final_content res) pc"]
  obtain pc' gp w' where ih:
    "full_paper_loop env sid info rest (dict_set sec (final_content res) pc) ?w2 = (Inr pc', w')"
    "active_sessions w' sid
       = Some (?s2\<lparr>session_context := (session_context ?s2)\<lparr>generation_process := gp\<rparr>\<rparr>)"
    "dict_keys pc' = fold (\<lambda>sec ks. if sec \<in> set ks then ks else ks @ [sec]) rest
        (dict_keys (dict_set sec (final_content res) pc))"
    by (elim exE conjE) (rule that; assumption)
  have 1: "full_paper_loop env sid info (sec # rest) pc w = (Inr pc', w')"
    unfolding full_paper_loop.simps gen prod.case bindE_def upd sum.case by (rule ih(1))
  have 2: "active_sessions w' sid
       = Some (s\<lparr>session_context := (session_context s)\<lparr>generation_process := gp\<rparr>\<rparr>)"
    unfolding ih(2) by simp
  have 3: "dict_keys pc' = fold (\<lambda>sec ks. if sec \<in> set ks then ks else ks @ [sec]) (sec # rest)
        (dict_keys pc)"
    unfolding ih(3) by (simp add: dict_keys_set)
  show ?case
    apply (intro exI [where x = pc'] exI [where x = gp] exI [where x = w'])
    apply (intro conjI)
      apply (rule 1)
     apply (rule 2)
    apply (rule 3)
    done
qed

lemma paper_sections_keys:
  "fold (\<lambda>sec ks. if sec \<in> set ks then ks else ks @ [sec]) paper_sections (dict_keys [])
     = paper_sections"
  by (simp add: paper_sections_def dict_keys_def)

lemma start_paper_generation_effect:
  assumes act: "active_sessions w sid = Some s"
  shows "\<exists>pc gp w'.
      start_paper_generation env sid info w
        = (Inr (CompletedResponse sid COMPLETED (completion_message (texts env)) pc
                  ''completed''), w')
      \<and> dict_keys pc = paper_sections
      \<and> active_sessions w' sid
          = Some (s\<lparr>messages := messages s @
                      [\<lparr> role = ''assistant'', content = notification (texts env),
                         metadata = [] \<rparr>,
                       \<lparr> role = ''assistant'', content = completion_message (texts env),
                         metadata = [] \<rparr>],
                   session_context := (session_context s)
                      \<lparr>current_stage := Some COMPLETED, paper_content := Some pc,
                       generation_process := gp\<rparr>,
                   status := ''completed''\<rparr>)"
proof -
  let ?note = "\<lparr> role = ''assistant'', content = notification (texts env), metadata = [] \<rparr>"
  let ?done = "\<lparr> role = ''assistant'', content = completion_message (texts env),
                 metadata = [] \<rparr>"
  let ?sa = "s\<lparr>session_context := fold apply_update [SetCurrentStage GENERATING]
                (session_context s)\<rparr>"
  let ?wa = "store_session sid ?sa w"
  have 1: "update_context sid [SetCurrentStage GENERATING] w = (Inr (), ?wa)"
    by (rule update_context_active [OF act])
  have acta: "active_sessions ?wa sid = Some ?sa" by simp
  let ?sb = "?sa\<lparr>messages := messages ?sa @ [?note]\<rparr>"
  let ?wb = "store_session sid ?sb ?wa"
  have 2: "add_message sid ''assistant'' (notification (texts env)) None ?wa = (Inr ?note, ?wb)"
    by (rule add_message_active [OF acta])
  have actb: "active_sessions ?wb sid = Some ?sb" by simp
  from full_paper_loop_effect [OF actb, of env info paper_sections "[]"]
  obtain pc gp wc where loop: "full_paper_loop env sid info paper_sections [] ?wb = (Inr pc, wc)"
    and actc: "active_sessions wc sid
        = Some (?sb\<lparr>session_context := (session_context ?sb)\<lparr>generation_process := gp\<rparr>\<rparr>)"
    and keys0: "dict_keys pc
        = fold (\<lambda>sec ks. if sec \<in> set ks then ks else ks @ [sec]) paper_sections
            (dict_keys ([] :: string dict))"
    by (elim exE conjE) (rule that; assumption)
  have 3: "generate_full_paper env sid info ?wb = (Inr pc, wc)"
    unfolding generate_full_paper_def by (rule loop)
  have keys: "dict_keys pc = paper_sections"
    unfolding keys0 by (rule paper_sections_keys)
  let ?sc = "?sb\<lparr>session_context := (session_context ?sb)\<lparr>generation_process := gp\<rparr>\<rparr>"
  let ?sd = "?sc\<lparr>session_context := fold apply_update
                [SetPaperContent pc, SetCurrentStage COMPLETED] (session_context ?sc)\<rparr>"
  let ?wd = "store_session sid ?sd wc"
  have 4: "update_context sid [SetPaperContent pc, SetCurrentStage COMPLETED] wc = (Inr (), ?wd)"
    by (rule update_context_active [OF actc])
  have actd: "active_sessions ?wd sid = Some ?sd" by simp
  let ?se = "?sd\<lparr>status := ''completed''\<rparr>"
  let ?we = "store_session sid ?se ?wd"
  have 5: "update_session_status sid ''completed'' ?wd = (Inr (), ?we)"
    by (rule update_session_status_active [OF actd])
  have acte: "active_sessions ?we sid = Some ?se" by simp
  let ?sf = "?se\<lparr>messages := messages ?se @ [?done]\<rparr>"
  let ?wf = "store_session sid ?sf ?we"
  have 6: "add_message sid ''assistant'' (completion_message (texts env)) None ?we
      = (Inr ?done, ?wf)"
    by (rule add_message_active [OF acte])
  have res: "start_paper_generation env sid info w
        = (Inr (CompletedResponse sid COMPLETED (completion_message (texts env)) pc
                  ''completed''), ?wf)"
    unfolding start_paper_generation_def bindE_def 1 2 3 4 5 6 prod.case sum.case by (rule refl)
  have fin: "active_sessions ?wf sid
          = Some (s\<lparr>messages := messages s @ [?note, ?done],
                   session_context := (session_context s)
                      \<lparr>current_stage := Some COMPLETED, paper_content := Some pc,
                       generation_process := gp\<rparr>,
                   status := ''completed''\<rparr>)"
    by simp
  show ?thesis
    apply (intro exI [where x = pc] exI [where x = gp] exI [where x = ?wf] conjI)
      apply (rule res)
     apply (rule keys)
    apply (rule fin)
    done
qed

text \<open>The part of a turn that every branch shares.\<close>

lemma process_user_input_unfold:
  fixes env sid user_input w s w0
  defines "s1 \<equiv> s\<lparr>messages := messages s @
                      [\<lparr> role = ''user'', content = user_input, metadata = [] \<rparr>]\<rparr>"
  defines "stage \<equiv> (case current_stage (session_context s) of None \<Rightarrow> INITIAL | Some st \<Rightarrow> st)"
  defines "info0 \<equiv> (case collected_info (session_context s) of None \<Rightarrow> [] | Some ci \<Rightarrow> ci)"
  defines "n \<equiv> (length (messages s) + 1) div 2"
  assumes gs: "get_session sid w = (Some s, w0)"
  shows "\<exists>extracted w1 w3 w4.
      active_sessions w1 sid = Some s1 \<and> calls w1 = calls w
      \<and> extract_information env user_input stage w1 = (Inr extracted, w3)
      \<and> active_sessions w4 sid
          = Some (s1\<lparr>session_context :=
                       (session_context s)\<lparr>collected_info := Some (dict_update info0 extracted)\<rparr>\<rparr>)
      \<and> process_user_input env sid user_input w =
          (if int n < min_rounds env then
             continue_information_collection env sid stage (dict_update info0 extracted) n w4
           else if is_complete (check_information_completeness (dict_update info0 extracted))
                   \<or> max_rounds env \<le> int n then
             start_paper_generation env sid (dict_update info0 extracted) w4
           else
             collect_missing_information env sid (dict_update info0 extracted)
               (missing_info (check_information_completeness (dict_update info0 extracted))) w4)"
proof -
  from get_session_Some [OF gs] have act0: "active_sessions w0 sid = Some s"
    and c0: "calls w0 = calls w" by simp_all
  let ?um = "\<lparr> role = ''user'', content = user_input, metadata = [] \<rparr>"
  let ?w1 = "store_session sid s1 w0"
  have 1: "add_message sid ''user'' user_input None w0 = (Inr ?um, ?w1)"
    unfolding s1_def by (rule add_message_active [OF act0])
  have act1: "active_sessions ?w1 sid = Some s1" by simp
  have 2: "get_context sid ?w1 = (session_context s1, ?w1)"
    by (rule get_context_active [OF act1])
  have ctx1: "session_context s1 = session_context s" by (simp add: s1_def)
  obtain r w3 where ex: "extract_information env user_input stage ?w1 = (r, w3)"
    by (meson surj_pair)
  from extract_information_Inr [of env user_input stage ?w1] ex
  obtain extracted where r: "r = Inr extracted" by auto
  have act3: "active_sessions w3 = active_sessions ?w1"
    using arg_cong [OF ex, of "\<lambda>p. active_sessions (snd p)"] by simp
  with act1 have a3: "active_sessions w3 sid = Some s1" by simp
  let ?info = "dict_update info0 extracted"
  let ?s2 = "s1\<lparr>session_context := fold apply_update [SetCollectedInfo ?info] (session_context s)\<rparr>"
  let ?w4 = "store_session sid ?s2 w3"
  have 3: "update_context sid [SetCollectedInfo ?info] w3 = (Inr (), ?w4)"
    using update_context_active [OF a3, of "[SetCollectedInfo ?info]"] unfolding ctx1 .
  have act4: "active_sessions ?w4 sid = Some ?s2" by simp
  have msgs: "session_messages ?w4 sid = messages s1"
    by (simp add: session_messages_def)
  have n: "length (messages s1) div 2 = n" by (simp add: n_def s1_def)
  have pui: "process_user_input env sid user_input w =
          (if int n < min_rounds env then
             continue_information_collection env sid stage ?info n ?w4
           else if is_complete (check_information_completeness ?info)
                   \<or> max_rounds env \<le> int n then
             start_paper_generation env sid ?info ?w4
           else
             collect_missing_information env sid ?info
               (missing_info (check_information_completeness ?info)) ?w4)"
    unfolding process_user_input_def gs prod.case option.case bindE_def 1 sum.case 2 Let_def ctx1
      stage_def [symmetric] info0_def [symmetric] ex r 3 msgs n
    by (rule refl)
  have fin: "active_sessions ?w4 sid
          = Some (s1\<lparr>session_context :=
                       (session_context s)\<lparr>collected_info := Some ?info\<rparr>\<rparr>)"
    by simp
  show ?thesis
    apply (rule exI [where x = extracted])
    apply (rule exI [where x = ?w1])
    apply (rule exI [where x = w3])
    apply (rule exI [where x = ?w4])
    apply (intro conjI)
        apply (rule act1)
       apply (simp add: c0)
      apply (simp add: ex r)
     apply (rule fin)
    apply (rule pui)
    done
qed

lemma collection_turn:
  fixes env sid user_input w s w0
  defines "user_msg \<equiv> \<lparr> role = ''user'', content = user_input, metadata = [] \<rparr>"
  defines "n \<equiv> (length (messages s) + 1) div 2"
  defines "next_stage \<equiv> stage_flow ! (min n (length stage_flow - 1))"
  defines "history \<equiv> map (\<lambda>m. (role m, content m)) (last_slice 6 (messages s @ [user_msg]))"
  assumes gs: "get_session sid w = (Some s, w0)"
    and low: "int n < min_rounds env"
  shows "\<exists>reply info wa wb w'.
      collect_information env next_stage info history wa = (reply, wb)
      \<and> process_user_input env sid user_input w
           = (Inr (CollectingResponse sid next_stage reply (n + 1) ''collecting''), w')
      \<and> session_of w' sid
           = Some (s\<lparr>messages := messages s @
                       [user_msg, \<lparr> role = ''assistant'', content = reply, metadata = [] \<rparr>],
                    session_context := (session_context s)
                       \<lparr>collected_info := Some info, current_stage := Some next_stage\<rparr>\<rparr>)"
proof -
  let ?s1 = "s\<lparr>messages := messages s @ [user_msg]\<rparr>"
  let ?stage = "case current_stage (session_context s) of None \<Rightarrow> INITIAL | Some st \<Rightarrow> st"
  let ?info0 = "case collected_info (session_context s) of None \<Rightarrow> [] | Some ci \<Rightarrow> ci"
  from process_user_input_unfold [OF gs, where env = env and user_input = user_input]
  obtain extracted w4 where
    act4: "active_sessions w4 sid
      = Some (?s1\<lparr>session_context :=
           (session_context s)\<lparr>collected_info := Some (dict_update ?info0 extracted)\<rparr>\<rparr>)"
    and pui: "process_user_input env sid user_input w
      = continue_information_collection env sid ?stage (dict_update ?info0 extracted) n w4"
    using low unfolding user_msg_def n_def by auto
  let ?info = "dict_update ?info0 extracted"
  let ?s4 = "?s1\<lparr>session_context := (session_context s)\<lparr>collected_info := Some ?info\<rparr>\<rparr>"
  from continue_information_collection_effect
    [OF act4, where env = env and n = n and info = ?info and stage = ?stage,
      folded next_stage_def]
  obtain reply wa wb w' where
    col: "collect_information env next_stage ?info
            (map (\<lambda>m. (role m, content m)) (last_slice 6 (messages ?s4))) wa = (reply, wb)"
    and res: "continue_information_collection env sid ?stage ?info n w4
           = (Inr (CollectingResponse sid next_stage reply (n + 1) ''collecting''), w')"
    and act': "active_sessions w' sid
           = Some (?s4\<lparr>messages := messages ?s4 @
                       [\<lparr> role = ''assistant'', content = reply, metadata = [] \<rparr>],
                    session_context := (session_context ?s4)\<lparr>current_stage := Some next_stage\<rparr>\<rparr>)"
    by (elim exE conjE) (rule that; assumption)
  have h: "map (\<lambda>m. (role m, content m)) (last_slice 6 (messages ?s4)) = history"
    by (simp add: history_def)
  have fin: "session_of w' sid
           = Some (s\<lparr>messages := messages s @
                       [user_msg, \<lparr> role = ''assistant'', content = reply, metadata = [] \<rparr>],
                    session_context := (session_context s)
                       \<lparr>collected_info := Some ?info, current_stage := Some next_stage\<rparr>\<rparr>)"
    by (simp add: session_of_active [OF act'])
  show ?thesis
    apply (rule exI [where x = reply])
    apply (rule exI [where x = ?info])
    apply (rule exI [where x = wa])
    apply (rule exI [where x = wb])
    apply (rule exI [where x = w'])
    apply (intro conjI)
      apply (rule col [unfolded h])
     apply (simp only: pui res)
    apply (rule fin)
    done
qed

lemma ceiling_turn:
  fixes env sid user_input w s w0
  defines "user_msg \<equiv> \<lparr> role = ''user'', content = user_input, metadata = [] \<rparr>"
  defines "n \<equiv> (length (messages s) + 1) div 2"
  assumes gs: "get_session sid w = (Some s, w0)"
    and floor: "min_rounds env \<le> int n"
    and ceiling: "max_rounds env \<le> int n"
  shows "\<exists>info w4 wg pc gp w'.
      session_of w4 sid
        = Some (s\<lparr>messages := messages s @ [user_msg],
                 session_context := (session_context s)\<lparr>collected_info := Some info\<rparr>\<rparr>)
      \<and> process_user_input env sid user_input w = start_paper_generation env sid info w4
      \<and> update_context sid [SetCurrentStage GENERATING] w4 = (Inr (), wg)
      \<and> session_of wg sid
        = Some (s\<lparr>messages := messages s @ [user_msg],
                 session_context := (session_context s)
                    \<lparr>collected_info := Some info, current_stage := Some GENERATING\<rparr>\<rparr>)
      \<and> start_paper_generation env sid info w4
        = (Inr (CompletedResponse sid COMPLETED (completion_message (texts env)) pc
                  ''completed''), w')
      \<and> dict_keys pc = paper_sections
      \<and> session_of w' sid
        = Some (s\<lparr>messages := messages s @
                    [user_msg,
                     \<lparr> role = ''assistant'', content = notification (texts env),
                       metadata = [] \<rparr>,
                     \<lparr> role = ''assistant'', content = completion_message (texts env),
                       metadata = [] \<rparr>],
                 session_context := (session_context s)
                    \<lparr>collected_info := Some info, current_stage := Some COMPLETED,
                     paper_content := Some pc, generation_process := gp\<rparr>,
                 status := ''completed''\<rparr>)"
proof -
  let ?s1 = "s\<lparr>messages := messages s @ [user_msg]\<rparr>"
  let ?info0 = "case collected_info (session_context s) of None \<Rightarrow> [] | Some ci \<Rightarrow> ci"
  from process_user_input_unfold [OF gs, where env = env and user_input = user_input]
  obtain extracted w4 where
    act4: "active_sessions w4 sid
      = Some (?s1\<lparr>session_context :=
           (session_context s)\<lparr>collected_info := Some (dict_update ?info0 extracted)\<rparr>\<rparr>)"
    and pui: "process_user_input env sid user_input w
      = start_paper_generation env sid (dict_update ?info0 extracted) w4"
    using floor ceiling unfolding user_msg_def n_def by auto
  let ?info = "dict_update ?info0 extracted"
  let ?s4 = "?s1\<lparr>session_context := (session_context s)\<lparr>collected_info := Some ?info\<rparr>\<rparr>"
  let ?wg = "store_session sid
      (?s4\<lparr>session_context := fold apply_update [SetCurrentStage GENERATING]
          (session_context ?s4)\<rparr>) w4"
  have upd: "update_context sid [SetCurrentStage GENERATING] w4 = (Inr (), ?wg)"
    by (rule update_context_active [OF act4])
  have actg: "session_of ?wg sid
        = Some (s\<lparr>messages := messages s @ [user_msg],
                 session_context := (session_context s)
                    \<lparr>collected_info := Some ?info, current_stage := Some GENERATING\<rparr>\<rparr>)"
    by (simp add: session_of_def get_session_def)
  from start_paper_generation_effect [OF act4, of env ?info]
  obtain pc gp w' where
    res: "start_paper_generation env sid ?info w4
        = (Inr (CompletedResponse sid COMPLETED (completion_message (texts env)) pc
                  ''completed''), w')"
    and keys: "dict_keys pc = paper_sections"
    and act': "active_sessions w' sid
          = Some (?s4\<lparr>messages := messages ?s4 @
                      [\<lparr> role = ''assistant'', content = notification (texts env),
                         metadata = [] \<rparr>,
                       \<lparr> role = ''assistant'', content = completion_message (texts env),
                         metadata = [] \<rparr>],
                   session_context := (session_context ?s4)
                      \<lparr>current_stage := Some COMPLETED, paper_content := Some pc,
                       generation_process := gp\<rparr>,
                   status := ''completed''\<rparr>)"
    by (elim exE conjE) (rule that; assumption)
  have fin: "session_of w' sid
        = Some (s\<lparr>messages := messages s @
                    [user_msg,
                     \<lparr> role = ''assistant'', content = notification (texts env),
                       metadata = [] \<rparr>,
                     \<lparr> role = ''assistant'', content = completion_message (texts env),
                       metadata = [] \<rparr>],
                 session_context := (session_context s)
                    \<lparr>collected_info := Some ?info, current_stage := Some COMPLETED,
                     paper_content := Some pc, generation_process := gp\<rparr>,
                 status := ''completed''\<rparr>)"
    by (simp add: session_of_active [OF act'])
  show ?thesis
    apply (rule exI [where x = ?info])
    apply (rule exI [where x = w4])
    apply (rule exI [where x = ?wg])
    apply (rule exI [where x = pc])
    apply (rule exI [where x = gp])
    apply (rule exI [where x = w'])
    apply (intro conjI)
          apply (rule session_of_active [OF act4])
         apply (rule pui)
        apply (rule upd)
       apply (rule actg)
      apply (rule res)
     apply (rule keys)
    apply (rule fin)
    done
qed

subsection \<open>The collected information over turns\<close>

lemma dict_keys_update:
  "set (dict_keys (dict_update d e)) = set (dict_keys d) \<union> set (dict_keys e)"
  unfolding dict_update_def
proof (induction e arbitrary: d)
  case Nil
  show ?case by (simp add: dict_keys_def)
next
  case (Cons p e)
  obtain k v where p: "p = (k, v)" by (cases p)
  have "set (dict_keys (dict_set k v d)) = insert k (set (dict_keys d))"
    by (auto simp: dict_keys_set)
  then show ?case using Cons.IH [of "dict_set k v d"]
    by (simp add: p) (auto simp: dict_keys_def)
qed

lemma dict_get_update:
  "dict_get (dict_update d e) k
     = (case map_of (rev e) k of Some v \<Rightarrow> Some v | None \<Rightarrow> dict_get d k)"
  unfolding dict_update_def
proof (induction e arbitrary: d)
  case Nil
  show ?case by simp
next
  case (Cons p e)
  obtain k' v' where p: "p = (k', v')" by (cases p)
  show ?case using Cons.IH [of "dict_set k' v' d"]
    by (simp add: p dict_get_set map_add_def split: option.splits)
qed

lemma collected_of_active:
  "active_sessions w sid = Some s \<Longrightarrow>
     collected_of w sid = (case collected_info (session_context s) of None \<Rightarrow> [] | Some ci \<Rightarrow> ci)"
  by (simp add: collected_of_def get_context_active)

lemma collected_of_session:
  "get_session sid w = (Some s, w0) \<Longrightarrow>
     collected_of w sid = (case collected_info (session_context s) of None \<Rightarrow> [] | Some ci \<Rightarrow> ci)"
  by (simp add: collected_of_def get_context_of_session)

lemma turn_absent:
  assumes "get_session sid w = (None, w0)"
  shows "snd (process_user_input env sid user_input w) = w"
  using assms get_session_None [OF assms] by (simp add: process_user_input_def)

text \<open>A turn merges the extracted fields into \<open>collected_info\<close>, and nothing else touches it.\<close>

lemma turn_collected:
  assumes gs: "get_session sid w = (Some s, w0)"
  shows "\<exists>extracted w1 w3.
      calls w1 = calls w
      \<and> extract_information env user_input
            (case current_stage (session_context s) of None \<Rightarrow> INITIAL | Some st \<Rightarrow> st) w1
          = (Inr extracted, w3)
      \<and> collected_of (snd (process_user_input env sid user_input w)) sid
          = dict_update (collected_of w sid) extracted"
proof -
  let ?s1 = "s\<lparr>messages := messages s @
                      [\<lparr> role = ''user'', content = user_input, metadata = [] \<rparr>]\<rparr>"
  let ?stage = "case current_stage (session_context s) of None \<Rightarrow> INITIAL | Some st \<Rightarrow> st"
  let ?info0 = "case collected_info (session_context s) of None \<Rightarrow> [] | Some ci \<Rightarrow> ci"
  let ?n = "(length (messages s) + 1) div 2"
  from process_user_input_unfold [OF gs, where env = env and user_input = user_input]
  obtain extracted w1 w3 w4 where
    c1: "calls w1 = calls w"
    and ex: "extract_information env user_input ?stage w1 = (Inr extracted, w3)"
    and act4: "active_sessions w4 sid
      = Some (?s1\<lparr>session_context :=
           (session_context s)\<lparr>collected_info := Some (dict_update ?info0 extracted)\<rparr>\<rparr>)"
    and pui: "process_user_input env sid user_input w =
          (if int ?n < min_rounds env then
             continue_information_collection env sid ?stage (dict_update ?info0 extracted) ?n w4
           else if is_complete (check_information_completeness (dict_update ?info0 extracted))
                   \<or> max_rounds env \<le> int ?n then
             start_paper_generation env sid (dict_update ?info0 extracted) w4
           else
             collect_missing_information env sid (dict_update ?info0 extracted)
               (missing_info (check_information_completeness (dict_update ?info0 extracted))) w4)"
    by (elim exE conjE) (rule that; assumption)
  let ?info = "dict_update ?info0 extracted"
  let ?s4 = "?s1\<lparr>session_context := (session_context s)\<lparr>collected_info := Some ?info\<rparr>\<rparr>"
  have a: "collected_of (snd (continue_information_collection env sid ?stage ?info ?n w4)) sid
      = ?info"
  proof -
    from continue_information_collection_effect
      [OF act4, where env = env and n = ?n and info = ?info and stage = ?stage]
    obtain reply w' where
      "continue_information_collection env sid ?stage ?info ?n w4
         = (Inr (CollectingResponse sid (stage_flow ! (min ?n (length stage_flow - 1))) reply
                   (?n + 1) ''collecting''), w')"
      "active_sessions w' sid
         = Some (?s4\<lparr>messages := messages ?s4 @
                     [\<lparr> role = ''assistant'', content = reply, metadata = [] \<rparr>],
                  session_context := (session_context ?s4)
                     \<lparr>current_stage := Some (stage_flow ! (min ?n (length stage_flow - 1)))\<rparr>\<rparr>)"
      by (elim exE conjE) (rule that; assumption)
    then show ?thesis by (simp add: collected_of_active)
  qed
  have b: "collected_of (snd (start_paper_generation env sid ?info w4)) sid = ?info"
  proof -
    from start_paper_generation_effect [OF act4, of env ?info]
    obtain pc gp w' where
      "start_paper_generation env sid ?info w4
        = (Inr (CompletedResponse sid COMPLETED (completion_message (texts env)) pc
                  ''completed''), w')"
      "active_sessions w' sid
          = Some (?s4\<lparr>messages := messages ?s4 @
                      [\<lparr> role = ''assistant'', content = notification (texts env),
                         metadata = [] \<rparr>,
                       \<lparr> role = ''assistant'', content = completion_message (texts env),
                         metadata = [] \<rparr>],
                   session_context := (session_context ?s4)
                      \<lparr>current_stage := Some COMPLETED, paper_content := Some pc,
                       generation_process := gp\<rparr>,
                   status := ''completed''\<rparr>)"
      by (elim exE conjE) (rule that; assumption)
    then show ?thesis by (simp add: collected_of_active)
  qed
  have c: "collected_of (snd (collect_missing_information env sid ?info missing w4)) sid = ?info"
    for missing
  proof -
    from collect_missing_information_effect [OF act4, of env ?info missing]
    obtain w' where
      "collect_missing_information env sid ?info missing w4
           = (Inr (MissingResponse sid ''collecting_missing''
                     (missing_prompt (texts env) (join ideographic_comma missing)) missing
                     ''collecting''), w')"
      "active_sessions w' sid
           = Some (?s4\<lparr>messages := messages ?s4 @
                       [\<lparr> role = ''assistant'',
                          content = missing_prompt (texts env) (join ideographic_comma missing),
                          metadata = [] \<rparr>]\<rparr>)"
      by (elim exE conjE) (rule that; assumption)
    then show ?thesis by (simp add: collected_of_active)
  qed
  have "collected_of (snd (process_user_input env sid user_input w)) sid = ?info"
  proof (cases "int ?n < min_rounds env")
    case True
    show ?thesis unfolding pui by (simp only: True if_True a)
  next
    case False
    show ?thesis
    proof (cases "is_complete (check_information_completeness ?info) \<or> max_rounds env \<le> int ?n")
      case True
      show ?thesis unfolding pui by (simp only: False True if_False if_True b)
    next
      case go: False
      show ?thesis unfolding pui by (simp only: False go if_False c)
    qed
  qed
  then have fin: "collected_of (snd (process_user_input env sid user_input w)) sid
      = dict_update (collected_of w sid) extracted"
    by (simp only: collected_of_session [OF gs])
  show ?thesis
    apply (rule exI [where x = extracted])
    apply (rule exI [where x = w1])
    apply (rule exI [where x = w3])
    apply (intro conjI)
      apply (rule c1)
     apply (rule ex)
    apply (rule fin)
    done
qed

lemma run_turns_keys:
  "set (dict_keys (collected_of w sid))
     \<subseteq> set (dict_keys (collected_of (run_turns env sid inputs w) sid))"
proof (induction inputs arbitrary: w)
  case Nil
  show ?case by simp
next
  case (Cons user_input rest)
  let ?w1 = "snd (process_user_input env sid user_input w)"
  have step: "set (dict_keys (collected_of w sid)) \<subseteq> set (dict_keys (collected_of ?w1 sid))"
  proof (cases "get_session sid w")
    case (Pair so w0)
    show ?thesis
    proof (cases so)
      case None
      with Pair have "?w1 = w" by (simp add: turn_absent)
      then show ?thesis by simp
    next
      case (Some s)
      with Pair have "get_session sid w = (Some s, w0)" by simp
      from turn_collected [OF this, of env user_input]
      obtain extracted where
        "collected_of ?w1 sid = dict_update (collected_of w sid) extracted" by blast
      then show ?thesis by (simp add: dict_keys_update)
    qed
  qed
  from step Cons.IH [of ?w1] show ?case by simp
qed

lemma extract_information_calls:
  "calls w1 = calls w2 \<Longrightarrow>
     fst (extract_information env ui st w1) = fst (extract_information env ui st w2)"
  by (simp add: extract_information_def extract_try_def bindE_def service_manager_chat_def
      Let_def split: prod.splits sum.splits option.splits)

lemma turn_extraction_absent:
  "get_session sid w = (None, w0) \<Longrightarrow> turn_extraction env sid user_input w = None"
  by (simp add: turn_extraction_def)

lemma turn_extraction_present:
  assumes gs: "get_session sid w = (Some s, w0)"
    and c: "calls w1 = calls w"
    and ex: "extract_information env user_input
            (case current_stage (session_context s) of None \<Rightarrow> INITIAL | Some st \<Rightarrow> st) w1
          = (Inr extracted, w3)"
  shows "turn_extraction env sid user_input w = Some extracted"
proof -
  let ?s1 = "s\<lparr>messages := messages s @
                      [\<lparr> role = ''user'', content = user_input, metadata = [] \<rparr>]\<rparr>"
  let ?stage = "case current_stage (session_context s) of None \<Rightarrow> INITIAL | Some st \<Rightarrow> st"
  from get_session_Some [OF gs] have act0: "active_sessions w0 sid = Some s"
    and c0: "calls w0 = calls w" by simp_all
  let ?um = "\<lparr> role = ''user'', content = user_input, metadata = [] \<rparr>"
  let ?w1 = "store_session sid ?s1 w0"
  have 1: "add_message sid ''user'' user_input None w0 = (Inr ?um, ?w1)"
    by (rule add_message_active [OF act0])
  have act1: "active_sessions ?w1 sid = Some ?s1" by simp
  have 2: "get_context sid ?w1 = (session_context ?s1, ?w1)"
    by (rule get_context_active [OF act1])
  have ctx1: "session_context ?s1 = session_context s" by simp
  have "calls ?w1 = calls w1" by (simp add: c0 c)
  from extract_information_calls [OF this, of env user_input ?stage]
  have 3: "fst (extract_information env user_input ?stage ?w1) = Inr extracted"
    by (simp add: ex)
  show ?thesis
    unfolding turn_extraction_def gs prod.case option.case 1 2 ctx1 3 sum.case
    by (rule refl)
qed

lemma turn_collected_extraction:
  assumes gs: "get_session sid w = (Some s, w0)"
  shows "\<exists>extracted.
      turn_extraction env sid user_input w = Some extracted
      \<and> collected_of (snd (process_user_input env sid user_input w)) sid
          = dict_update (collected_of w sid) extracted"
proof -
  from turn_collected [OF gs, of env user_input]
  obtain extracted w1 w3 where
    c: "calls w1 = calls w"
    and ex: "extract_information env user_input
            (case current_stage (session_context s) of None \<Rightarrow> INITIAL | Some st \<Rightarrow> st) w1
          = (Inr extracted, w3)"
    and upd: "collected_of (snd (process_user_input env sid user_input w)) sid
          = dict_update (collected_of w sid) extracted"
    by (elim exE conjE) (rule that; assumption)
  from turn_extraction_present [OF gs c ex] upd show ?thesis by blast
qed

lemma carries_falsy_iff:
  "carries_falsy extracted f \<longleftrightarrow> (\<exists>v. (f, v) \<in> set extracted \<and> \<not> truthy v)"
  by (auto simp: carries_falsy_def list_ex_iff)

lemma update_keeps_filled:
  assumes "\<not> carries_falsy extracted f" and "\<not> field_missing d f"
  shows "\<not> field_missing (dict_update d extracted) f"
proof -
  have new: "truthy v" if m: "map_of (rev extracted) f = Some v" for v
  proof -
    from m have "(f, v) \<in> set (rev extracted)" by (rule map_of_SomeD)
    then have "(f, v) \<in> set extracted" by simp
    with assms(1) show ?thesis by (auto simp: carries_falsy_iff)
  qed
  show ?thesis
    using assms(2) new
    by (auto simp: field_missing_def dict_get_update split: option.splits)
qed

lemma run_turns_stays_filled:
  "\<not> falsy_extraction env sid f inputs w \<Longrightarrow> \<not> field_missing (collected_of w sid) f
     \<Longrightarrow> \<not> field_missing (collected_of (run_turns env sid inputs w) sid) f"
proof (induction inputs arbitrary: w)
  case Nil
  then show ?case by simp
next
  case (Cons user_input rest)
  let ?w1 = "snd (process_user_input env sid user_input w)"
  from Cons.prems(1) have
    now: "case turn_extraction env sid user_input w of
            None \<Rightarrow> True | Some extracted \<Rightarrow> \<not> carries_falsy extracted f"
    and later: "\<not> falsy_extraction env sid f rest ?w1"
    by (simp_all split: option.splits)
  have step: "\<not> field_missing (collected_of ?w1 sid) f"
  proof (cases "get_session sid w")
    case (Pair so w0)
    show ?thesis
    proof (cases so)
      case None
      with Pair have "?w1 = w" by (simp add: turn_absent)
      with Cons.prems(2) show ?thesis by simp
    next
      case (Some s)
      with Pair have "get_session sid w = (Some s, w0)" by simp
      from turn_collected_extraction [OF this, of env user_input]
      obtain extracted where
        te: "turn_extraction env sid user_input w = Some extracted"
        and upd: "collected_of ?w1 sid = dict_update (collected_of w sid) extracted" by blast
      from now te have "\<not> carries_falsy extracted f" by simp
      from update_keeps_filled [OF this Cons.prems(2)] show ?thesis unfolding upd .
    qed
  qed
  from Cons.IH [OF later step] show ?case by simp
qed

lemma missing_info_iff:
  "f \<in> set (missing_info (check_information_completeness ci))
     \<longleftrightarrow> f \<in> set required_fields \<and> field_missing ci f"
  by (auto simp: check_information_completeness_def Let_def missing_loop_filter)

lemma sample_get_session:
  "get_session ''u_1'' (sample_world s) = (Some s, sample_world s)"
  by (simp add: get_session_def sample_world_def)

text \<open>Regenerating \<open>results\<close> leaves \<open>abstract\<close> as it was.\<close>

theorem regenerate_section_frame_witness:
  "(\<exists>new. fst (regenerate_section (sample_env (backend_always ''text'')) ''u_1'' ''results''
            (sample_world (sample_session []
               (sample_context\<lparr>paper_content := Some [(''abstract'', ''A''), (''results'', ''R'')]\<rparr>))))
        = Inr (RegeneratedResponse ''u_1'' ''results'' new ''success'')
      \<and> session_of (snd (regenerate_section (sample_env (backend_always ''text'')) ''u_1'' ''results''
            (sample_world (sample_session []
               (sample_context\<lparr>paper_content := Some [(''abstract'', ''A''), (''results'', ''R'')]\<rparr>)))))
          ''u_1''
        = Some (sample_session []
                 (sample_context\<lparr>paper_content := Some [(''abstract'', ''A''), (''results'', new)]\<rparr>)))"
proof -
  let ?s = "sample_session []
     (sample_context\<lparr>paper_content := Some [(''abstract'', ''A''), (''results'', ''R'')]\<rparr>)"
  from regenerate_section_frame [OF sample_get_session [of ?s],
      of "sample_env (backend_always ''text'')" "''results''"]
  show ?thesis
    by (simp add: sample_session_def sample_context_def dict_set_def)
qed

text \<open>
  C6. On a user turn of an existing session the round is half the number of messages of
  the whole transcript, the turn included, rounded down. Whenever the round is below
  \<open>min_rounds\<close>, the turn sets \<open>current_stage\<close> to
  \<open>stage_flow[min(round, len(stage_flow) - 1)]\<close>, appends the reply of the collector role
  (called with that stage, the merged information and the last six messages) as an
  assistant message, and returns that stage, that message, \<open>round + 1\<close> and the status
  \<open>collecting\<close>.
\<close>

theorem collection_round:
  fixes env sid user_input w s w0
  defines "user_msg \<equiv> \<lparr> role = ''user'', content = user_input, metadata = [] \<rparr>"
  defines "n \<equiv> (length (messages s) + 1) div 2"
  defines "next_stage \<equiv> stage_flow ! (min n (length stage_flow - 1))"
  defines "history \<equiv> map (\<lambda>m. (role m, content m)) (last_slice 6 (messages s @ [user_msg]))"
  assumes gs: "get_session sid w = (Some s, w0)"
    and low: "int n < min_rounds env"
  shows "\<exists>reply info wa wb w'.
      collect_information env next_stage info history wa = (reply, wb)
      \<and> process_user_input env sid user_input w
           = (Inr (CollectingResponse sid next_stage reply (n + 1) ''collecting''), w')
      \<and> session_of w' sid
           = Some (s\<lparr>messages := messages s @
                       [user_msg, \<lparr> role = ''assistant'', content = reply, metadata = [] \<rparr>],
                    session_context := (session_context s)
                       \<lparr>collected_info := Some info, current_stage := Some next_stage\<rparr>\<rparr>)"
  unfolding user_msg_def n_def next_stage_def history_def
  using low unfolding n_def by (rule collection_turn [OF gs])

text \<open>A transcript of three messages: the turn is round 2, stage \<open>methodology\<close>.\<close>

theorem collection_round_witness:
  "\<exists>reply w'. process_user_input (sample_env (backend_always ''ok'')) ''u_1'' ''my topic''
        (sample_world (sample_session (replicate 3 sample_message) sample_context))
      = (Inr (CollectingResponse ''u_1'' METHODOLOGY reply 3 ''collecting''), w')"
proof -
  let ?s = "sample_session (replicate 3 sample_message) sample_context"
  have low: "int ((length (messages ?s) + 1) div 2) < min_rounds (sample_env (backend_always ''ok''))"
    by (simp add: sample_session_def sample_env_def)
  have n: "(length (messages ?s) + 1) div 2 = 2" by (simp add: sample_session_def)
  have st: "stage_flow ! (min 2 (length stage_flow - 1)) = METHODOLOGY"
    by (simp add: stage_flow_def)
  from collection_round [OF sample_get_session [of ?s] low, of "''my topic''"]
  obtain reply w' where "process_user_input (sample_env (backend_always ''ok'')) ''u_1'' ''my topic''
        (sample_world ?s)
      = (Inr (CollectingResponse ''u_1''
                (stage_flow ! (min ((length (messages ?s) + 1) div 2) (length stage_flow - 1)))
                reply ((length (messages ?s) + 1) div 2 + 1) ''collecting''), w')"
    by blast
  then have "process_user_input (sample_env (backend_always ''ok'')) ''u_1'' ''my topic''
        (sample_world ?s)
      = (Inr (CollectingResponse ''u_1'' METHODOLOGY reply 3 ''collecting''), w')"
    by (simp only: n st) simp
  then show ?thesis by blast
qed

text \<open>
  C1 (as the code has it). On a user turn of an existing session whose round has reached
  both \<open>min_rounds\<close> and \<open>max_rounds\<close> (as it has at the ceiling whenever
  \<open>min_rounds \<le> max_rounds\<close>, the defaults being 5 and 15), whatever the collected
  information and whether or not it is complete, the turn is the run of the paper
  generation: the stage becomes \<open>generating\<close>, the seven sections are generated, and the
  turn returns the paper with stage and status \<open>completed\<close>.
\<close>

theorem ceiling_starts_generation:
  fixes env sid user_input w s w0
  defines "user_msg \<equiv> \<lparr> role = ''user'', content = user_input, metadata = [] \<rparr>"
  defines "n \<equiv> (length (messages s) + 1) div 2"
  assumes gs: "get_session sid w = (Some s, w0)"
    and floor: "min_rounds env \<le> int n"
    and ceiling: "max_rounds env \<le> int n"
  shows "\<exists>info w4 wg pc gp w'.
      session_of w4 sid
        = Some (s\<lparr>messages := messages s @ [user_msg],
                 session_context := (session_context s)\<lparr>collected_info := Some info\<rparr>\<rparr>)
      \<and> process_user_input env sid user_input w = start_paper_generation env sid info w4
      \<and> update_context sid [SetCurrentStage GENERATING] w4 = (Inr (), wg)
      \<and> session_of wg sid
        = Some (s\<lparr>messages := messages s @ [user_msg],
                 session_context := (session_context s)
                    \<lparr>collected_info := Some info, current_stage := Some GENERATING\<rparr>\<rparr>)
      \<and> start_paper_generation env sid info w4
        = (Inr (CompletedResponse sid COMPLETED (completion_message (texts env)) pc
                  ''completed''), w')
      \<and> dict_keys pc = paper_sections
      \<and> session_of w' sid
        = Some (s\<lparr>messages := messages s @
                    [user_msg,
                     \<lparr> role = ''assistant'', content = notification (texts env),
                       metadata = [] \<rparr>,
                     \<lparr> role = ''assistant'', content = completion_message (texts env),
                       metadata = [] \<rparr>],
                 session_context := (session_context s)
                    \<lparr>collected_info := Some info, current_stage := Some COMPLETED,
                     paper_content := Some pc, generation_process := gp\<rparr>,
                 status := ''completed''\<rparr>)"
  unfolding user_msg_def
  using floor ceiling unfolding n_def by (rule ceiling_turn [OF gs])

text \<open>
  The default configuration, round 15, no required field filled: the paper is generated.
\<close>

theorem ceiling_starts_generation_witness:
  "is_complete (check_information_completeness []) = False
   \<and> (\<exists>pc w'. process_user_input (sample_env (backend_always ''ok'')) ''u_1'' ''go''
          (sample_world (sample_session (replicate 29 sample_message) sample_context))
        = (Inr (CompletedResponse ''u_1'' COMPLETED ''done'' pc ''completed''), w')
      \<and> dict_keys pc = paper_sections)"
proof -
  let ?s = "sample_session (replicate 29 sample_message) sample_context"
  let ?env = "sample_env (backend_always ''ok'')"
  have n: "(length (messages ?s) + 1) div 2 = 15" by (simp add: sample_session_def)
  have floor: "min_rounds ?env \<le> int ((length (messages ?s) + 1) div 2)"
    unfolding n by (simp add: sample_env_def)
  have ceiling: "max_rounds ?env \<le> int ((length (messages ?s) + 1) div 2)"
    unfolding n by (simp add: sample_env_def)
  from ceiling_starts_generation [OF sample_get_session [of ?s] floor ceiling, of "''go''"]
  obtain info w4 pc w' where
    pui: "process_user_input ?env ''u_1'' ''go'' (sample_world ?s)
       = start_paper_generation ?env ''u_1'' info w4"
    and res: "start_paper_generation ?env ''u_1'' info w4
        = (Inr (CompletedResponse ''u_1'' COMPLETED (completion_message (texts ?env)) pc
                  ''completed''), w')"
    and keys: "dict_keys pc = paper_sections"
    by (elim exE conjE) (rule that; assumption)
  have msg: "completion_message (texts ?env) = ''done''"
    by (simp add: sample_env_def sample_prompts_def)
  have 1: "process_user_input ?env ''u_1'' ''go'' (sample_world ?s)
        = (Inr (CompletedResponse ''u_1'' COMPLETED ''done'' pc ''completed''), w')"
    unfolding pui res msg by (rule refl)
  have 2: "is_complete (check_information_completeness []) = False"
    by (simp add: check_information_completeness_def required_fields_def field_missing_def
        dict_get_def)
  show ?thesis
    apply (intro conjI)
     apply (rule 2)
    apply (rule exI [where x = pc])
    apply (rule exI [where x = w'])
    apply (intro conjI)
     apply (rule 1)
    apply (rule keys)
    done
qed

text \<open>
  The claim as stated fails for a configuration with \<open>min_rounds = 20\<close> above
  \<open>max_rounds = 15\<close>: the test of \<open>min_rounds\<close> comes first, so on round 15 the turn is
  answered by the collector with status \<open>collecting\<close>, and no paper is generated.
\<close>

theorem ceiling_counterexample:
  "max_rounds ((sample_env (backend_always ''ok''))\<lparr>min_rounds := 20\<rparr>)
     \<le> int ((length (messages (sample_session (replicate 29 sample_message) sample_context)) + 1)
              div 2)
   \<and> (\<exists>w'. process_user_input ((sample_env (backend_always ''ok''))\<lparr>min_rounds := 20\<rparr>) ''u_1''
          ''go'' (sample_world (sample_session (replicate 29 sample_message) sample_context))
        = (Inr (CollectingResponse ''u_1'' GENERATING ''ok'' 16 ''collecting''), w')
      \<and> (\<exists>s'. session_of w' ''u_1'' = Some s'
             \<and> paper_content (session_context s') = None \<and> status s' = ''active''))"
proof -
  let ?s = "sample_session (replicate 29 sample_message) sample_context"
  let ?env = "(sample_env (backend_always ''ok''))\<lparr>min_rounds := 20\<rparr>"
  have n: "(length (messages ?s) + 1) div 2 = 15" by (simp add: sample_session_def)
  have low: "int ((length (messages ?s) + 1) div 2) < min_rounds ?env"
    unfolding n by (simp add: sample_env_def)
  have mx: "max_rounds ?env \<le> int ((length (messages ?s) + 1) div 2)"
    unfolding n by (simp add: sample_env_def)
  have st: "stage_flow ! (min 15 (length stage_flow - 1)) = GENERATING"
    by (simp add: stage_flow_def)
  have reply: "fst (collect_information ?env stage info h wa) = ''ok''" for stage info h wa
    by (simp add: collect_information_def service_manager_chat_def get_service_def
        first_service_def role_service_mapping_def assign_services_to_roles_def dict_get_def
        sample_env_def backend_always_def Let_def)
  from collection_turn [OF sample_get_session [of ?s] low, of "''go''"]
  obtain reply info wa wb w' where
    col: "collect_information ?env
        (stage_flow ! (min ((length (messages ?s) + 1) div 2) (length stage_flow - 1))) info
        (map (\<lambda>m. (role m, content m))
           (last_slice 6 (messages ?s @ [\<lparr> role = ''user'', content = ''go'', metadata = [] \<rparr>])))
        wa = (reply, wb)"
    and res: "process_user_input ?env ''u_1'' ''go'' (sample_world ?s)
      = (Inr (CollectingResponse ''u_1''
                (stage_flow ! (min ((length (messages ?s) + 1) div 2) (length stage_flow - 1)))
                reply ((length (messages ?s) + 1) div 2 + 1) ''collecting''), w')"
    and fin: "session_of w' ''u_1''
      = Some (?s\<lparr>messages := messages ?s @
                  [\<lparr> role = ''user'', content = ''go'', metadata = [] \<rparr>,
                   \<lparr> role = ''assistant'', content = reply, metadata = [] \<rparr>],
               session_context := (session_context ?s)
                  \<lparr>collected_info := Some info,
                   current_stage := Some (stage_flow !
                     (min ((length (messages ?s) + 1) div 2) (length stage_flow - 1)))\<rparr>\<rparr>)"
    by (elim exE conjE) (rule that; assumption)
  have "reply = fst (collect_information ?env
        (stage_flow ! (min ((length (messages ?s) + 1) div 2) (length stage_flow - 1))) info
        (map (\<lambda>m. (role m, content m))
           (last_slice 6 (messages ?s @ [\<lparr> role = ''user'', content = ''go'', metadata = [] \<rparr>])))
        wa)"
    unfolding col by simp
  then have r: "reply = ''ok''" unfolding reply .
  have res': "process_user_input ?env ''u_1'' ''go'' (sample_world ?s)
      = (Inr (CollectingResponse ''u_1'' GENERATING ''ok'' 16 ''collecting''), w')"
    using res unfolding n st r by simp
  have fin': "\<exists>s'. session_of w' ''u_1'' = Some s'
             \<and> paper_content (session_context s') = None \<and> status s' = ''active''"
    unfolding fin by (simp add: sample_session_def sample_context_def)
  show ?thesis
    apply (intro conjI)
     apply (rule mx)
    apply (rule exI [where x = w'])
    apply (intro conjI)
     apply (rule res')
    apply (rule fin')
    done
qed

text \<open>
  C7 (as the code has it). Over every sequence of user turns on one session the keys of
  \<open>collected_info\<close> are only gained, never removed: a turn on an existing session replaces
  the mapping by its update with the mapping extracted in that turn. A field that the
  completeness check does not report as missing stays unreported over the turns unless the
  extraction of one of these turns carries that field with a falsy value (an extracted
  empty value overwrites the stored one).
\<close>

theorem collected_info_monotone:
  "set (dict_keys (collected_of w sid))
     \<subseteq> set (dict_keys (collected_of (run_turns env sid inputs w) sid))
   \<and> (f \<notin> set (missing_info (check_information_completeness (collected_of w sid)))
        \<and> \<not> falsy_extraction env sid f inputs w
      \<longrightarrow> f \<notin> set (missing_info (check_information_completeness
                      (collected_of (run_turns env sid inputs w) sid))))
   \<and> (\<forall>s w0. get_session sid w = (Some s, w0) \<longrightarrow>
        (\<exists>extracted.
           turn_extraction env sid user_input w = Some extracted
           \<and> collected_of (snd (process_user_input env sid user_input w)) sid
               = dict_update (collected_of w sid) extracted))"
proof (intro conjI impI allI)
  show "set (dict_keys (collected_of w sid))
     \<subseteq> set (dict_keys (collected_of (run_turns env sid inputs w) sid))"
    by (rule run_turns_keys)
next
  assume a: "f \<notin> set (missing_info (check_information_completeness (collected_of w sid)))
        \<and> \<not> falsy_extraction env sid f inputs w"
  show "f \<notin> set (missing_info (check_information_completeness
                      (collected_of (run_turns env sid inputs w) sid)))"
  proof (cases "f \<in> set required_fields")
    case True
    with a have "\<not> field_missing (collected_of w sid) f" by (simp add: missing_info_iff)
    with a have "\<not> field_missing (collected_of (run_turns env sid inputs w) sid) f"
      using run_turns_stays_filled by blast
    then show ?thesis by (simp add: missing_info_iff)
  next
    case False
    then show ?thesis by (simp add: missing_info_iff)
  qed
next
  fix s w0 assume "get_session sid w = (Some s, w0)"
  then show "\<exists>extracted.
           turn_extraction env sid user_input w = Some extracted
           \<and> collected_of (snd (process_user_input env sid user_input w)) sid
               = dict_update (collected_of w sid) extracted"
    by (rule turn_collected_extraction)
qed

lemma sample_collected:
  "collected_of (sample_world (sample_session ms (sample_context\<lparr>collected_info := Some ci\<rparr>)))
     ''u_1'' = ci"
  by (simp add: collected_of_def get_context_def get_session_def sample_world_def
      sample_session_def sample_context_def)

lemma topic_required: "field_topic \<in> set required_fields"
  by (simp add: required_fields_def)

lemma falsy_extraction_const:
  assumes "\<And>ui st w. fst (extract_information env ui st w) = Inr d"
    and "\<not> carries_falsy d f"
  shows "\<not> falsy_extraction env sid f inputs w"
proof (induction inputs arbitrary: w)
  case Nil
  show ?case by simp
next
  case (Cons user_input rest)
  have "turn_extraction env sid user_input w = None \<or> turn_extraction env sid user_input w = Some d"
    by (simp add: turn_extraction_def assms(1) split: prod.splits option.splits)
  with assms(2) Cons.IH show ?case by auto
qed

lemma sample_block_trees:
  "find_json_block (sample_json_reply ''trees'') = Some (sample_json_reply ''trees'')"
  by (simp add: sample_json_reply_def field_topic_def brace_body_def)

text \<open>
  Two turns whose extraction yields a non-empty topic, with a parser that yields an empty
  topic on another block: the topic stays filled.
\<close>

theorem collected_info_monotone_witness:
  "sample_json_loads (sample_json_reply []) = Some [(field_topic, JStr [])]
   \<and> field_topic \<notin> set (missing_info (check_information_completeness
        (collected_of (sample_world (sample_session []
           (sample_context\<lparr>collected_info := Some [(field_topic, JStr ''graphs'')]\<rparr>))) ''u_1'')))
   \<and> \<not> falsy_extraction
          ((sample_env (backend_always (sample_json_reply ''trees'')))
             \<lparr>json_loads := sample_json_loads\<rparr>)
          ''u_1'' field_topic [''more'', ''again'']
          (sample_world (sample_session []
             (sample_context\<lparr>collected_info := Some [(field_topic, JStr ''graphs'')]\<rparr>)))
   \<and> field_topic \<notin> set (missing_info (check_information_completeness
        (collected_of
           (run_turns
              ((sample_env (backend_always (sample_json_reply ''trees'')))
                 \<lparr>json_loads := sample_json_loads\<rparr>)
              ''u_1'' [''more'', ''again'']
              (sample_world (sample_session []
                 (sample_context\<lparr>collected_info := Some [(field_topic, JStr ''graphs'')]\<rparr>))))
           ''u_1'')))"
proof -
  let ?env = "(sample_env (backend_always (sample_json_reply ''trees'')))
                 \<lparr>json_loads := sample_json_loads\<rparr>"
  let ?w = "sample_world (sample_session []
                 (sample_context\<lparr>collected_info := Some [(field_topic, JStr ''graphs'')]\<rparr>))"
  have p: "sample_json_loads (sample_json_reply []) = Some [(field_topic, JStr [])]"
    by (simp add: sample_json_loads_def sample_json_reply_def)
  have ext: "fst (extract_information ?env ui st w1) = Inr [(field_topic, JStr ''trees'')]"
    for ui st w1
    by (simp add: extract_information_def extract_try_def bindE_def service_manager_chat_def
        get_service_def first_service_def sample_env_def backend_always_def sample_block_trees
        sample_json_loads_def Let_def)
  have nf: "\<not> carries_falsy [(field_topic, JStr ''trees'')] field_topic"
    by (simp add: carries_falsy_def)
  have run: "\<not> falsy_extraction ?env ''u_1'' field_topic [''more'', ''again''] ?w"
    by (rule falsy_extraction_const [OF ext nf])
  have before: "field_topic \<notin> set (missing_info (check_information_completeness
        (collected_of ?w ''u_1'')))"
    by (simp add: sample_collected missing_info_iff field_missing_def dict_get_def)
  from collected_info_monotone [of ?w "''u_1''" ?env "[''more'', ''again'']" field_topic]
    before run
  have "field_topic \<notin> set (missing_info (check_information_completeness
        (collected_of (run_turns ?env ''u_1'' [''more'', ''again''] ?w) ''u_1'')))"
    by blast
  with p before run show ?thesis by blast
qed

lemma sample_block: "find_json_block (sample_json_reply []) = Some (sample_json_reply [])"
  by (simp add: sample_json_reply_def field_topic_def brace_body_def)

text \<open>
  The claim as stated fails: a turn whose extraction yields the topic with an empty text
  overwrites the stored topic, and the completeness check reports the topic as missing.
\<close>

theorem collected_info_counterexample:
  "field_topic \<notin> set (missing_info (check_information_completeness
        (collected_of (sample_world (sample_session []
           (sample_context\<lparr>collected_info := Some [(field_topic, JStr ''graphs'')]\<rparr>))) ''u_1'')))
   \<and> turn_extraction
        ((sample_env (backend_always (sample_json_reply [])))
           \<lparr>json_loads := sample_json_loads\<rparr>)
        ''u_1'' ''more''
        (sample_world (sample_session []
           (sample_context\<lparr>collected_info := Some [(field_topic, JStr ''graphs'')]\<rparr>)))
      = Some [(field_topic, JStr [])]
   \<and> field_topic \<in> set (missing_info (check_information_completeness
        (collected_of
           (run_turns
              ((sample_env (backend_always (sample_json_reply [])))
                 \<lparr>json_loads := sample_json_loads\<rparr>)
              ''u_1'' [''more'']
              (sample_world (sample_session []
                 (sample_context\<lparr>collected_info := Some [(field_topic, JStr ''graphs'')]\<rparr>))))
           ''u_1'')))"
proof -
  let ?env = "(sample_env (backend_always (sample_json_reply [])))
                 \<lparr>json_loads := sample_json_loads\<rparr>"
  let ?s = "sample_session []
                 (sample_context\<lparr>collected_info := Some [(field_topic, JStr ''graphs'')]\<rparr>)"
  let ?w = "sample_world ?s"
  have before: "field_topic \<notin> set (missing_info (check_information_completeness
        (collected_of ?w ''u_1'')))"
    by (simp add: sample_collected missing_info_iff field_missing_def dict_get_def)
  have ne: "sample_json_reply [] \<noteq> sample_json_reply ''trees''"
    by (simp add: sample_json_reply_def)
  have ext: "fst (extract_information ?env ui st w1) = Inr [(field_topic, JStr [])]" for ui st w1
    by (simp add: extract_information_def extract_try_def bindE_def service_manager_chat_def
        get_service_def first_service_def sample_env_def backend_always_def sample_block
        sample_json_loads_def ne Let_def)
  from turn_collected_extraction [OF sample_get_session [of ?s], of ?env "''more''"]
  obtain extracted where
    te: "turn_extraction ?env ''u_1'' ''more'' ?w = Some extracted"
    and upd: "collected_of (snd (process_user_input ?env ''u_1'' ''more'' ?w)) ''u_1''
          = dict_update (collected_of ?w ''u_1'') extracted"
    by (elim exE conjE) (rule that; assumption)
  have "turn_extraction ?env ''u_1'' ''more'' ?w = None
        \<or> turn_extraction ?env ''u_1'' ''more'' ?w = Some [(field_topic, JStr [])]"
    by (simp add: turn_extraction_def ext split: prod.splits option.splits)
  with te have e: "extracted = [(field_topic, JStr [])]" by simp
  have after: "collected_of (run_turns ?env ''u_1'' [''more''] ?w) ''u_1''
      = [(field_topic, JStr [])]"
    by (simp add: upd e sample_collected dict_update_def dict_set_def)
  have "field_topic \<in> set (missing_info (check_information_completeness
        (collected_of (run_turns ?env ''u_1'' [''more''] ?w) ''u_1'')))"
    unfolding after by (simp add: missing_info_iff topic_required field_missing_def dict_get_def)
  with before te e show ?thesis by blast
qed

end
